theory Spec2Isabelle
  imports Main "HOL-Library.Sublist"
begin

section \<open>The debugger server of Prepack (src/debugger/server/Debugger.js)\<close>

text \<open>
  A shallow embedding of the class \<open>DebugServer\<close>. JavaScript strings are lists of
  characters, the numbers of the protocol (lines, columns, request and frame ids) are
  integers, a value that may be \<open>undefined\<close> or \<open>null\<close> is an \<open>option\<close>, and a
  \<open>throw\<close> is the \<open>Inl\<close> of a sum.
\<close>

subsection \<open>Errors\<close>

text \<open>
  \<open>DebuggerError\<close> carries a short code and a message; \<open>invariant(c, msg)\<close> throws when
  \<open>c\<close> is false, with the message when one is given.
\<close>

datatype error =
    DebuggerError string string
  | InvariantViolation "string option"

subsection \<open>Stop severity policy\<close>

text \<open>The Flow type \<open>Severity\<close> is the union of four string literals.\<close>

datatype severity = Information | Warning | RecoverableError | FatalError

text \<open>
  \<open>shouldStopForSeverity\<close>: the first argument is the field \<open>_diagnosticSeverity\<close>.
  The \<open>default\<close> branch of the switch (an invariant violation) is not reachable for a
  value of type \<open>severity\<close>.
\<close>

fun shouldStopForSeverity :: "severity \<Rightarrow> severity \<Rightarrow> bool" where
  "shouldStopForSeverity Information severity = True"
| "shouldStopForSeverity Warning severity = (severity \<noteq> Information)"
| "shouldStopForSeverity RecoverableError severity =
     (severity = RecoverableError \<or> severity = FatalError)"
| "shouldStopForSeverity FatalError severity = (severity = FatalError)"

text \<open>
  The order of the specification, Information < Warning < RecoverableError < FatalError,
  as a rank.
\<close>

fun severityRank :: "severity \<Rightarrow> nat" where
  "severityRank Information = 0"
| "severityRank Warning = 1"
| "severityRank RecoverableError = 2"
| "severityRank FatalError = 3"

subsection \<open>Path translation\<close>

text \<open>
  \<open>String.prototype.replace(pattern, replacement)\<close> with a string pattern replaces the
  first occurrence of the pattern, searching from the left; the empty pattern occurs at
  position 0. (The replacement is only ever the empty string here, so the \<open>$\<close> patterns
  of a replacement string play no role.)
\<close>

fun replaceFirst :: "'a list \<Rightarrow> 'a list \<Rightarrow> 'a list \<Rightarrow> 'a list" where
  "replaceFirst pat rep [] = (if pat = [] then rep else [])"
| "replaceFirst pat rep (c # cs) =
     (if prefix pat (c # cs) then rep @ drop (length pat) (c # cs)
      else c # replaceFirst pat rep cs)"

text \<open>
  \<open>_relativeToAbsolute\<close> and \<open>_absoluteToRelative\<close>; the first argument is the field
  \<open>_sourcemapPrefix\<close>.
\<close>

definition relativeToAbsolute :: "string \<Rightarrow> string \<Rightarrow> string" where
  "relativeToAbsolute sourcemapPrefix path = sourcemapPrefix @ path"

definition absoluteToRelative :: "string \<Rightarrow> string \<Rightarrow> string" where
  "absoluteToRelative sourcemapPrefix path = replaceFirst sourcemapPrefix [] path"

text \<open>The pattern occurs in a string at offset \<open>i\<close>.\<close>

definition occursAt :: "'a list \<Rightarrow> 'a list \<Rightarrow> nat \<Rightarrow> bool" where
  "occursAt pat s i = (i \<le> length s \<and> prefix pat (drop i s))"

subsection \<open>Program locations and AST nodes\<close>

text \<open>
  \<open>BabelNodeSourceLocation\<close>: the source may be missing (\<open>null\<close> or \<open>undefined\<close>).
  Only the start position is read by the debugger.
\<close>

record position =
  line :: int
  column :: int

record babelNodeSourceLocation =
  source :: "string option"
  start :: position

record babelNode =
  loc :: "babelNodeSourceLocation option"

text \<open>
  The test \<open>loc && loc.source\<close>: it succeeds when the location is present and its
  source is a non-empty string (the empty string is falsy), and then gives the location
  and that source.
\<close>

definition locatedSource ::
  "babelNodeSourceLocation option \<Rightarrow> (babelNodeSourceLocation \<times> string) option" where
  "locatedSource l =
     (case l of
        None \<Rightarrow> None
      | Some l' \<Rightarrow>
          (case source l' of
             None \<Rightarrow> None
           | Some src \<Rightarrow> if src = [] then None else Some (l', src)))"

text \<open>\<open>SourceData\<close>, the type of the field \<open>_lastExecuted\<close>.\<close>

record sourceData =
  filePath :: string
  line_sd :: int
  column_sd :: int
  stackSize :: nat

subsection \<open>The engine's call stack\<close>

text \<open>
  A function value with its property \<open>__originalName\<close>; the environment records, told
  apart by \<open>instanceof\<close> (\<open>OtherEnvironmentRecord\<close> stands for a record of none of the
  four classes); a lexical environment with its parent link; an execution context.
\<close>

record functionValue =
  originalName :: "string option"

datatype environmentRecord =
    GlobalEnvironmentRecord
  | FunctionEnvironmentRecord functionValue
  | DeclarativeEnvironmentRecord
  | ObjectEnvironmentRecord
  | OtherEnvironmentRecord

datatype lexicalEnvironment =
  LexicalEnvironment (environmentRecord: environmentRecord) (parent: "lexicalEnvironment option")

record executionContext =
  function_ctx :: "functionValue option"
  loc_ctx :: "babelNodeSourceLocation option"
  lexicalEnvironment :: lexicalEnvironment

record realm =
  contextStack :: "executionContext list"

subsection \<open>Requests and messages\<close>

record breakpoint =
  filePath_bp :: string
  line_bp :: int
  column_bp :: int

text \<open>The variants of \<open>DebuggerRequestArguments\<close>, tagged by their \<open>kind\<close>.\<close>

datatype arguments =
    BreakpointArguments "breakpoint list"
  | RunArguments
  | StackframeArguments
  | ScopesArguments int
  | VariablesArguments int
  | StepIntoArguments
  | StepOverArguments
  | StepOutArguments
  | EvaluateArguments "int option" string

text \<open>
  The command of a request is a string, compared with the constants of \<open>DebugMessage\<close>.
  The twelve constants of the dispatcher's switch are constructors; \<open>OtherCommand c\<close> is
  any other command string \<open>c\<close>.
\<close>

datatype command =
    BREAKPOINT_ADD_COMMAND
  | BREAKPOINT_REMOVE_COMMAND
  | BREAKPOINT_ENABLE_COMMAND
  | BREAKPOINT_DISABLE_COMMAND
  | PREPACK_RUN_COMMAND
  | STACKFRAMES_COMMAND
  | SCOPES_COMMAND
  | VARIABLES_COMMAND
  | STEPINTO_COMMAND
  | STEPOVER_COMMAND
  | STEPOUT_COMMAND
  | EVALUATE_COMMAND
  | OtherCommand string

record debuggerRequest =
  id_req :: int
  command :: command
  arguments :: arguments

datatype acknowledge =
    BREAKPOINT_ADD_ACKNOWLEDGE
  | BREAKPOINT_REMOVE_ACKNOWLEDGE
  | BREAKPOINT_ENABLE_ACKNOWLEDGE
  | BREAKPOINT_DISABLE_ACKNOWLEDGE

record stackframe =
  id_frame :: int
  functionName :: string
  fileName :: string
  line_frame :: int
  column_frame :: int

record scope =
  name :: string
  variablesReference :: int
  expensive :: bool

text \<open>
  What the server writes to the channel, one constructor for each \<open>send\<close> method it
  calls. The last argument of \<open>StoppedResponse\<close> is the optional message. The variables and the evaluation result come from the variable manager and are
  forwarded as they are.
\<close>

datatype ('vs, 'ev) message =
    StoppedResponse string string int int "string option"
  | BreakpointsAcknowledge acknowledge int arguments
  | StackframeResponse int "stackframe list"
  | ScopesResponse int "scope list"
  | VariablesResponse int 'vs
  | EvaluateResponse int 'ev

subsection \<open>The collaborators\<close>

text \<open>
  The breakpoint manager, the stepping manager, the stop event manager and the variable
  manager are defined in other files. Each is a state of an arbitrary type, and its
  methods are parameters: a method that updates its manager returns the new state, a
  lookup only reads it. The stepping and the variable manager hold the realm, which is
  passed to their methods. A stoppable object (a breakpoint or a stepper) is of an
  arbitrary type. A method returns (it does not throw), and it touches neither the
  server's own fields nor the node or the location it is given.
\<close>

datatype stepKind = StepIn | StepOver | StepOut

record ('bm, 'sm, 'em, 'vm, 'so, 'vs, 'ev) collaborators =
  addBreakpointMulti :: "'bm \<Rightarrow> breakpoint list \<Rightarrow> 'bm"
  removeBreakpointMulti :: "'bm \<Rightarrow> breakpoint list \<Rightarrow> 'bm"
  enableBreakpointMulti :: "'bm \<Rightarrow> breakpoint list \<Rightarrow> 'bm"
  disableBreakpointMulti :: "'bm \<Rightarrow> breakpoint list \<Rightarrow> 'bm"
  getStoppableBreakpoint :: "'bm \<Rightarrow> babelNode \<Rightarrow> 'so option"
  processStepCommand :: "'sm \<Rightarrow> realm \<Rightarrow> stepKind \<Rightarrow> babelNodeSourceLocation \<Rightarrow> 'sm"
  getAndDeleteCompletedSteppers :: "'sm \<Rightarrow> realm \<Rightarrow> babelNode \<Rightarrow> 'so list \<times> 'sm"
  getDebuggeeStopReason :: "'em \<Rightarrow> babelNode \<Rightarrow> 'so list \<Rightarrow> string option"
  getReferenceForValue :: "'vm \<Rightarrow> realm \<Rightarrow> lexicalEnvironment \<Rightarrow> int \<times> 'vm"
  getVariablesByReference :: "'vm \<Rightarrow> realm \<Rightarrow> int \<Rightarrow> 'vs \<times> 'vm"
  evaluate :: "'vm \<Rightarrow> realm \<Rightarrow> int option \<Rightarrow> string \<Rightarrow> 'ev \<times> 'vm"
  clean :: "'vm \<Rightarrow> 'vm"

subsection \<open>The server\<close>

text \<open>
  The fields of \<open>DebugServer\<close>. The channel is the list of the messages sent so far,
  oldest first; the requests still to come from the adapter are an argument of the
  functions that read them.
\<close>

record ('bm, 'sm, 'em, 'vm, 'vs, 'ev) debugServer =
  breakpointManager :: 'bm
  channel :: "('vs, 'ev) message list"
  realm :: realm
  variableManager :: 'vm
  stepManager :: 'sm
  stopEventManager :: 'em
  lastExecuted :: "sourceData option"
  sourcemapPrefix :: string
  diagnosticSeverity :: severity

definition send ::
  "('vs, 'ev) message \<Rightarrow> ('bm, 'sm, 'em, 'vm, 'vs, 'ev) debugServer
     \<Rightarrow> ('bm, 'sm, 'em, 'vm, 'vs, 'ev) debugServer" where
  "send m s = s\<lparr>channel := channel s @ [m]\<rparr>"

subsection \<open>Numbers in messages\<close>

text \<open>
  The decimal text of an integer. String concatenation with a number gives this text
  for an integer of magnitude below \<open>10^21\<close>; from \<open>10^21\<close> on JavaScript prints
  the exponent form (\<open>1e+21\<close>), which this definition does not follow. It is used for
  the numeral in the message of one error only.
\<close>

function natToString :: "nat \<Rightarrow> string" where
  "natToString n =
     (if n < 10 then [''0123456789'' ! n]
      else natToString (n div 10) @ [''0123456789'' ! (n mod 10)])"
  by pat_completeness auto
termination
  by (relation "measure id") auto

declare natToString.simps [simp del]

definition numberToString :: "int \<Rightarrow> string" where
  "numberToString i =
     (if i < 0 then CHR ''-'' # natToString (nat (- i)) else natToString (nat i))"

subsection \<open>Stack frames\<close>

text \<open>\<open>_getFrameLocation\<close>; the result is the triple (fileName, line, column).\<close>

definition getFrameLocation :: "babelNodeSourceLocation option \<Rightarrow> string \<times> int \<times> int" where
  "getFrameLocation l =
     (case locatedSource l of
        None \<Rightarrow> (''unknown'', 0, 0)
      | Some (l', src) \<Rightarrow> (src, line (start l'), column (start l')))"

text \<open>
  The name shown for a frame: \<open>frame.function && frame.function.__originalName\<close>
  selects the recorded name, when there is a function and its name is a non-empty string.
\<close>

definition frameFunctionName :: "executionContext \<Rightarrow> string" where
  "frameFunctionName frame =
     (case function_ctx frame of
        None \<Rightarrow> ''(anonymous function)''
      | Some f \<Rightarrow>
          (case originalName f of
             None \<Rightarrow> ''(anonymous function)''
           | Some n \<Rightarrow> if n = [] then ''(anonymous function)'' else n))"

text \<open>
  The loop of \<open>processStackframesCommand\<close>: \<open>stackframesLoop p cs n l\<close> runs the
  iterations \<open>i = n - 1, ..., 0\<close> over the call stack \<open>cs\<close>, where \<open>l\<close> is the value of
  (fileName, line, column) on entry and \<open>p\<close> the sourcemap prefix.
\<close>

fun stackframesLoop ::
  "string \<Rightarrow> executionContext list \<Rightarrow> nat \<Rightarrow> string \<times> int \<times> int \<Rightarrow> stackframe list" where
  "stackframesLoop p cs 0 l = []"
| "stackframesLoop p cs (Suc i) l =
     (let frame = cs ! i;
          frameInfo = \<lparr>id_frame = int (length cs) - 1 - int i,
                       functionName = frameFunctionName frame,
                       fileName = relativeToAbsolute p (fst l),
                       line_frame = fst (snd l),
                       column_frame = snd (snd l)\<rparr>
      in frameInfo # stackframesLoop p cs i (getFrameLocation (loc_ctx frame)))"

definition processStackframesCommand ::
  "('bm, 'sm, 'em, 'vm, 'vs, 'ev) debugServer \<Rightarrow> int \<Rightarrow> babelNodeSourceLocation option
     \<Rightarrow> ('bm, 'sm, 'em, 'vm, 'vs, 'ev) debugServer" where
  "processStackframesCommand s requestID astLoc =
     (let cs = contextStack (realm s);
          frameInfos = stackframesLoop (sourcemapPrefix s) cs (length cs) (getFrameLocation astLoc)
      in send (StackframeResponse requestID frameInfos) s)"

subsection \<open>Scopes\<close>

text \<open>
  \<open>_getScopeName\<close>, the \<open>instanceof\<close> tests in the order of the source. A function
  record is a declarative record too; \<open>DeclarativeEnvironmentRecord\<close> stands for a
  declarative record that is not a function record.
\<close>

fun getScopeName :: "environmentRecord \<Rightarrow> error + string" where
  "getScopeName GlobalEnvironmentRecord = Inr ''Global''"
| "getScopeName (FunctionEnvironmentRecord functionObject) =
     Inr (''Local: '' @
       (case originalName functionObject of
          None \<Rightarrow> ''anonymous function''
        | Some n \<Rightarrow> if n = [] then ''anonymous function'' else n))"
| "getScopeName DeclarativeEnvironmentRecord = Inr ''Block''"
| "getScopeName ObjectEnvironmentRecord = Inr ''With''"
| "getScopeName OtherEnvironmentRecord =
     Inl (InvariantViolation (Some ''Invalid type of environment record''))"

text \<open>
  The loop of \<open>processScopesCommand\<close> from one lexical environment outwards. Each
  iteration names the scope first and then registers the environment with the variable
  manager; an invariant violation ends the loop.
\<close>

fun scopesLoop ::
  "('bm, 'sm, 'em, 'vm, 'so, 'vs, 'ev) collaborators \<Rightarrow> realm \<Rightarrow> 'vm \<Rightarrow> lexicalEnvironment
     \<Rightarrow> (error + scope list) \<times> 'vm" where
  "scopesLoop C r vm (LexicalEnvironment envRec par) =
     (case getScopeName envRec of
        Inl e \<Rightarrow> (Inl e, vm)
      | Inr n \<Rightarrow>
          (case getReferenceForValue C vm r (LexicalEnvironment envRec par) of
             (ref, vm') \<Rightarrow>
               (let scope = \<lparr>name = n, variablesReference = ref, expensive = False\<rparr>
                in case par of
                     None \<Rightarrow> (Inr [scope], vm')
                   | Some lexicalEnv \<Rightarrow>
                       (case scopesLoop C r vm' lexicalEnv of
                          (Inl e, vm'') \<Rightarrow> (Inl e, vm'')
                        | (Inr scopes, vm'') \<Rightarrow> (Inr (scope # scopes), vm'')))))"

text \<open>
  \<open>processScopesCommand\<close> gives the error thrown, if any, and the server after the
  call, which holds the registrations made before a throw.
\<close>

definition processScopesCommand ::
  "('bm, 'sm, 'em, 'vm, 'so, 'vs, 'ev) collaborators \<Rightarrow> ('bm, 'sm, 'em, 'vm, 'vs, 'ev) debugServer
     \<Rightarrow> int \<Rightarrow> int \<Rightarrow> error option \<times> ('bm, 'sm, 'em, 'vm, 'vs, 'ev) debugServer" where
  "processScopesCommand C s requestID frameId =
     (let cs = contextStack (realm s) in
      if frameId < 0 \<or> frameId \<ge> int (length cs)
      then (Some (DebuggerError ''Invalid command''
                    (''Invalid frame id for scopes request: '' @ numberToString frameId)), s)
      else
        (let stackIndex = nat (int (length cs) - 1 - frameId);
             context = cs ! stackIndex
         in case scopesLoop C (realm s) (variableManager s) (lexicalEnvironment context) of
              (Inl e, vm') \<Rightarrow> (Some e, s\<lparr>variableManager := vm'\<rparr>)
            | (Inr scopes, vm') \<Rightarrow>
                (None, send (ScopesResponse requestID scopes) (s\<lparr>variableManager := vm'\<rparr>))))"

subsection \<open>Variables, evaluation, resuming\<close>

definition processVariablesCommand ::
  "('bm, 'sm, 'em, 'vm, 'so, 'vs, 'ev) collaborators \<Rightarrow> ('bm, 'sm, 'em, 'vm, 'vs, 'ev) debugServer
     \<Rightarrow> int \<Rightarrow> int \<Rightarrow> ('bm, 'sm, 'em, 'vm, 'vs, 'ev) debugServer" where
  "processVariablesCommand C s requestID reference =
     (case getVariablesByReference C (variableManager s) (realm s) reference of
        (variables, vm') \<Rightarrow>
          send (VariablesResponse requestID variables) (s\<lparr>variableManager := vm'\<rparr>))"

definition processEvaluateCommand ::
  "('bm, 'sm, 'em, 'vm, 'so, 'vs, 'ev) collaborators \<Rightarrow> ('bm, 'sm, 'em, 'vm, 'vs, 'ev) debugServer
     \<Rightarrow> int \<Rightarrow> int option \<Rightarrow> string \<Rightarrow> ('bm, 'sm, 'em, 'vm, 'vs, 'ev) debugServer" where
  "processEvaluateCommand C s requestID frameId expression =
     (case evaluate C (variableManager s) (realm s) frameId expression of
        (evalResult, vm') \<Rightarrow>
          send (EvaluateResponse requestID evalResult) (s\<lparr>variableManager := vm'\<rparr>))"

text \<open>\<open>_onDebuggeeResume\<close>.\<close>

definition onDebuggeeResume ::
  "('bm, 'sm, 'em, 'vm, 'so, 'vs, 'ev) collaborators \<Rightarrow> ('bm, 'sm, 'em, 'vm, 'vs, 'ev) debugServer
     \<Rightarrow> ('bm, 'sm, 'em, 'vm, 'vs, 'ev) debugServer" where
  "onDebuggeeResume C s = s\<lparr>variableManager := clean C (variableManager s)\<rparr>"

subsection \<open>The command dispatcher\<close>

text \<open>
  The first statements of \<open>processDebuggerCommand\<close> assign to the location and to the
  breakpoints of the request: the source of the location (when \<open>loc && loc.source\<close>
  holds) and the file path of every breakpoint are replaced by their relative forms.
\<close>

definition relativeLocation ::
  "string \<Rightarrow> babelNodeSourceLocation option \<Rightarrow> babelNodeSourceLocation option" where
  "relativeLocation p l =
     (case locatedSource l of
        None \<Rightarrow> l
      | Some (l', src) \<Rightarrow> Some (l'\<lparr>source := Some (absoluteToRelative p src)\<rparr>))"

definition relativeArguments :: "string \<Rightarrow> arguments \<Rightarrow> arguments" where
  "relativeArguments p args =
     (case args of
        BreakpointArguments bps \<Rightarrow>
          BreakpointArguments
            (map (\<lambda>bp. bp\<lparr>filePath_bp := absoluteToRelative p (filePath_bp bp)\<rparr>) bps)
      | _ \<Rightarrow> args)"

text \<open>
  The four breakpoint commands differ in the manager's method and the acknowledgment.
\<close>

definition breakpointCommand ::
  "('bm \<Rightarrow> breakpoint list \<Rightarrow> 'bm) \<Rightarrow> acknowledge \<Rightarrow> int \<Rightarrow> arguments
     \<Rightarrow> ('bm, 'sm, 'em, 'vm, 'vs, 'ev) debugServer
     \<Rightarrow> (error + bool) \<times> ('bm, 'sm, 'em, 'vm, 'vs, 'ev) debugServer" where
  "breakpointCommand method ack requestID args s =
     (case args of
        BreakpointArguments bps \<Rightarrow>
          (Inr False,
           send (BreakpointsAcknowledge ack requestID args)
             (s\<lparr>breakpointManager := method (breakpointManager s) bps\<rparr>))
      | _ \<Rightarrow> (Inl (InvariantViolation None), s))"

text \<open>The three step commands differ in the direction.\<close>

definition stepCommand ::
  "('bm, 'sm, 'em, 'vm, 'so, 'vs, 'ev) collaborators \<Rightarrow> stepKind
     \<Rightarrow> babelNodeSourceLocation option \<Rightarrow> ('bm, 'sm, 'em, 'vm, 'vs, 'ev) debugServer
     \<Rightarrow> (error + bool) \<times> ('bm, 'sm, 'em, 'vm, 'vs, 'ev) debugServer" where
  "stepCommand C kind l s =
     (case l of
        None \<Rightarrow> (Inl (InvariantViolation None), s)
      | Some l' \<Rightarrow>
          (Inr True,
           onDebuggeeResume C
             (s\<lparr>stepManager := processStepCommand C (stepManager s) (realm s) kind l'\<rparr>)))"

text \<open>
  \<open>processDebuggerCommand\<close> gives what the call returns (\<open>Inr True\<close>: Prepack should
  unblock) or throws, the server after the call, and the location after the call.
\<close>

definition processDebuggerCommand ::
  "('bm, 'sm, 'em, 'vm, 'so, 'vs, 'ev) collaborators \<Rightarrow> ('bm, 'sm, 'em, 'vm, 'vs, 'ev) debugServer
     \<Rightarrow> debuggerRequest \<Rightarrow> babelNodeSourceLocation option
     \<Rightarrow> (error + bool) \<times> ('bm, 'sm, 'em, 'vm, 'vs, 'ev) debugServer
          \<times> babelNodeSourceLocation option" where
  "processDebuggerCommand C s request l =
     (let requestID = id_req request;
          l' = relativeLocation (sourcemapPrefix s) l;
          args = relativeArguments (sourcemapPrefix s) (arguments request);
          (result, s') =
            (case command request of
               BREAKPOINT_ADD_COMMAND \<Rightarrow>
                 breakpointCommand (addBreakpointMulti C) BREAKPOINT_ADD_ACKNOWLEDGE requestID args s
             | BREAKPOINT_REMOVE_COMMAND \<Rightarrow>
                 breakpointCommand (removeBreakpointMulti C) BREAKPOINT_REMOVE_ACKNOWLEDGE
                   requestID args s
             | BREAKPOINT_ENABLE_COMMAND \<Rightarrow>
                 breakpointCommand (enableBreakpointMulti C) BREAKPOINT_ENABLE_ACKNOWLEDGE
                   requestID args s
             | BREAKPOINT_DISABLE_COMMAND \<Rightarrow>
                 breakpointCommand (disableBreakpointMulti C) BREAKPOINT_DISABLE_ACKNOWLEDGE
                   requestID args s
             | PREPACK_RUN_COMMAND \<Rightarrow>
                 (case args of
                    RunArguments \<Rightarrow> (Inr True, onDebuggeeResume C s)
                  | _ \<Rightarrow> (Inl (InvariantViolation None), s))
             | STACKFRAMES_COMMAND \<Rightarrow>
                 (case args of
                    StackframeArguments \<Rightarrow> (Inr False, processStackframesCommand s requestID l')
                  | _ \<Rightarrow> (Inl (InvariantViolation None), s))
             | SCOPES_COMMAND \<Rightarrow>
                 (case args of
                    ScopesArguments frameId \<Rightarrow>
                      (case processScopesCommand C s requestID frameId of
                         (Some e, s') \<Rightarrow> (Inl e, s')
                       | (None, s') \<Rightarrow> (Inr False, s'))
                  | _ \<Rightarrow> (Inl (InvariantViolation None), s))
             | VARIABLES_COMMAND \<Rightarrow>
                 (case args of
                    VariablesArguments reference \<Rightarrow>
                      (Inr False, processVariablesCommand C s requestID reference)
                  | _ \<Rightarrow> (Inl (InvariantViolation None), s))
             | STEPINTO_COMMAND \<Rightarrow> stepCommand C StepIn l' s
             | STEPOVER_COMMAND \<Rightarrow> stepCommand C StepOver l' s
             | STEPOUT_COMMAND \<Rightarrow> stepCommand C StepOut l' s
             | EVALUATE_COMMAND \<Rightarrow>
                 (case args of
                    EvaluateArguments frameId expression \<Rightarrow>
                      (Inr False, processEvaluateCommand C s requestID frameId expression)
                  | _ \<Rightarrow> (Inl (InvariantViolation None), s))
             | OtherCommand c \<Rightarrow>
                 (Inl (DebuggerError ''Invalid command'' (''Invalid command from adapter: '' @ c)),
                  s))
      in (result, s', l'))"

subsection \<open>The blocking loop\<close>

text \<open>
  How a call ends: it returns, it throws, or it waits in \<open>readIn\<close> for a request that
  never comes.
\<close>

datatype completion = Returned | Thrown error | Blocked

text \<open>
  \<open>waitForRun\<close> on the requests the adapter will send, in order: \<open>readIn\<close> takes the
  first. The result is how the call ends, the server and the location after it, and the
  requests not read.
\<close>

fun waitForRun ::
  "('bm, 'sm, 'em, 'vm, 'so, 'vs, 'ev) collaborators \<Rightarrow> ('bm, 'sm, 'em, 'vm, 'vs, 'ev) debugServer
     \<Rightarrow> babelNodeSourceLocation option \<Rightarrow> debuggerRequest list
     \<Rightarrow> completion \<times> ('bm, 'sm, 'em, 'vm, 'vs, 'ev) debugServer
          \<times> babelNodeSourceLocation option \<times> debuggerRequest list" where
  "waitForRun C s l [] = (Blocked, s, l, [])"
| "waitForRun C s l (request # requests) =
     (case processDebuggerCommand C s request l of
        (Inl e, s', l') \<Rightarrow> (Thrown e, s', l', requests)
      | (Inr keepRunning, s', l') \<Rightarrow>
          if keepRunning then (Returned, s', l', requests)
          else waitForRun C s' l' requests)"

subsection \<open>The checkpoint\<close>

text \<open>\<open>_checkAndUpdateLastExecuted\<close>: the value returned and the server after the call.\<close>

definition checkAndUpdateLastExecuted ::
  "('bm, 'sm, 'em, 'vm, 'vs, 'ev) debugServer \<Rightarrow> babelNode
     \<Rightarrow> bool \<times> ('bm, 'sm, 'em, 'vm, 'vs, 'ev) debugServer" where
  "checkAndUpdateLastExecuted s ast =
     (case locatedSource (loc ast) of
        None \<Rightarrow> (False, s)
      | Some (l, src) \<Rightarrow>
          (let filePath' = src;
               line' = line (start l);
               column' = column (start l);
               stackSize' = length (contextStack (realm s))
           in if (case lastExecuted s of
                    None \<Rightarrow> False
                  | Some le \<Rightarrow>
                      filePath' = filePath le \<and> line' = line_sd le \<and>
                      column' = column_sd le \<and> stackSize' = stackSize le)
              then (False, s)
              else (True,
                    s\<lparr>lastExecuted :=
                        Some \<lparr>filePath = filePath', line_sd = line', column_sd = column',
                              stackSize = length (contextStack (realm s))\<rparr>\<rparr>)))"

text \<open>
  \<open>checkForActions\<close> on the requests the adapter will send. The location handed to
  \<open>waitForRun\<close> is the node's own location object, so the node is returned with the
  location as the loop leaves it.
\<close>

definition checkForActions ::
  "('bm, 'sm, 'em, 'vm, 'so, 'vs, 'ev) collaborators \<Rightarrow> ('bm, 'sm, 'em, 'vm, 'vs, 'ev) debugServer
     \<Rightarrow> babelNode \<Rightarrow> debuggerRequest list
     \<Rightarrow> completion \<times> ('bm, 'sm, 'em, 'vm, 'vs, 'ev) debugServer
          \<times> babelNode \<times> debuggerRequest list" where
  "checkForActions C s ast requests =
     (case checkAndUpdateLastExecuted s ast of
        (False, s1) \<Rightarrow> (Returned, s1, ast, requests)
      | (True, s1) \<Rightarrow>
          (case getAndDeleteCompletedSteppers C (stepManager s1) (realm s1) ast of
             (stoppables, sm') \<Rightarrow>
               (let s2 = s1\<lparr>stepManager := sm'\<rparr>;
                    breakpoint = getStoppableBreakpoint C (breakpointManager s2) ast;
                    stoppables' =
                      (case breakpoint of None \<Rightarrow> stoppables | Some b \<Rightarrow> stoppables @ [b]);
                    reason = getDebuggeeStopReason C (stopEventManager s2) ast stoppables'
                in case reason of
                     None \<Rightarrow> (Returned, s2, ast, requests)
                   | Some r \<Rightarrow>
                       if r = [] then (Returned, s2, ast, requests)
                       else
                         (case locatedSource (loc ast) of
                            None \<Rightarrow> (Thrown (InvariantViolation None), s2, ast, requests)
                          | Some (l, src) \<Rightarrow>
                              (let absolutePath = relativeToAbsolute (sourcemapPrefix s2) src;
                                   s3 = send (StoppedResponse r absolutePath
                                                (line (start l)) (column (start l)) None) s2
                               in case waitForRun C s3 (Some l) requests of
                                    (c, s4, l', requests') \<Rightarrow>
                                      (c, s4, ast\<lparr>loc := l'\<rparr>, requests'))))))"

subsection \<open>Notions used in the statements\<close>

text \<open>A message is a stopped notification.\<close>

fun isStoppedResponse :: "('vs, 'ev) message \<Rightarrow> bool" where
  "isStoppedResponse (StoppedResponse reason file l c msg) = True"
| "isStoppedResponse m = False"

text \<open>
  The frame of a call: what a call to the dispatcher or to the loop never changes in the
  server, and that it sends no stopped notification.
\<close>

definition sameSession ::
  "('bm, 'sm, 'em, 'vm, 'vs, 'ev) debugServer \<Rightarrow> ('bm, 'sm, 'em, 'vm, 'vs, 'ev) debugServer
     \<Rightarrow> bool" where
  "sameSession s s' =
     (lastExecuted s' = lastExecuted s \<and> realm s' = realm s \<and>
      sourcemapPrefix s' = sourcemapPrefix s \<and> diagnosticSeverity s' = diagnosticSeverity s \<and>
      stopEventManager s' = stopEventManager s \<and>
      filter isStoppedResponse (channel s') = filter isStoppedResponse (channel s))"

text \<open>The source file, start line and start column of a node, when it has a location.\<close>

definition locationKey :: "babelNode \<Rightarrow> (string option \<times> int \<times> int) option" where
  "locationKey ast =
     (case loc ast of
        None \<Rightarrow> None
      | Some l \<Rightarrow> Some (source l, line (start l), column (start l)))"

text \<open>
  A run of checkpoints: the engine calls \<open>checkForActions\<close> on one node after the
  other, each time with the call stack it has then, for as long as the calls return.
\<close>

fun checkpointRun ::
  "('bm, 'sm, 'em, 'vm, 'so, 'vs, 'ev) collaborators \<Rightarrow> ('bm, 'sm, 'em, 'vm, 'vs, 'ev) debugServer
     \<Rightarrow> (realm \<times> babelNode) list \<Rightarrow> debuggerRequest list
     \<Rightarrow> completion \<times> ('bm, 'sm, 'em, 'vm, 'vs, 'ev) debugServer \<times> debuggerRequest list" where
  "checkpointRun C s [] requests = (Returned, s, requests)"
| "checkpointRun C s ((r, ast) # rest) requests =
     (case checkForActions C (s\<lparr>realm := r\<rparr>) ast requests of
        (Returned, s', ast', requests') \<Rightarrow> checkpointRun C s' rest requests'
      | (c, s', ast', requests') \<Rightarrow> (c, s', requests'))"

text \<open>The chain of a lexical environment, innermost first, along the parent links.\<close>

fun environmentChain :: "lexicalEnvironment \<Rightarrow> lexicalEnvironment list" where
  "environmentChain (LexicalEnvironment envRec par) =
     LexicalEnvironment envRec par #
       (case par of None \<Rightarrow> [] | Some lexicalEnv \<Rightarrow> environmentChain lexicalEnv)"

text \<open>
  Registering a list of environments with the variable manager, one after the other:
  the handles obtained and the manager afterwards.
\<close>

fun registerAll ::
  "('bm, 'sm, 'em, 'vm, 'so, 'vs, 'ev) collaborators \<Rightarrow> realm \<Rightarrow> 'vm \<Rightarrow> lexicalEnvironment list
     \<Rightarrow> int list \<times> 'vm" where
  "registerAll C r vm [] = ([], vm)"
| "registerAll C r vm (env # envs) =
     (case getReferenceForValue C vm r env of
        (ref, vm') \<Rightarrow>
          (case registerAll C r vm' envs of (refs, vm'') \<Rightarrow> (ref # refs, vm'')))"

subsection \<open>A concrete session\<close>

text \<open>
  Simple collaborators to run the server on concrete inputs: the breakpoint manager is
  the list of its breakpoints and finds the one at the node's position, there are no
  steppers, the arbiter stops for any stoppable object, and the variable manager counts
  the handles it has given out.
\<close>

definition exampleCollaborators ::
  "(breakpoint list, unit, unit, nat, breakpoint, unit, unit) collaborators" where
  "exampleCollaborators =
     \<lparr>addBreakpointMulti = (\<lambda>bm bps. bm @ bps),
      removeBreakpointMulti = (\<lambda>bm bps. filter (\<lambda>b. b \<notin> set bps) bm),
      enableBreakpointMulti = (\<lambda>bm bps. bm),
      disableBreakpointMulti = (\<lambda>bm bps. bm),
      getStoppableBreakpoint =
        (\<lambda>bm ast.
           case locatedSource (loc ast) of
             None \<Rightarrow> None
           | Some (l, src) \<Rightarrow>
               find (\<lambda>b. filePath_bp b = src \<and> line_bp b = line (start l) \<and>
                          column_bp b = column (start l)) bm),
      processStepCommand = (\<lambda>sm r kind l. sm),
      getAndDeleteCompletedSteppers = (\<lambda>sm r ast. ([], sm)),
      getDebuggeeStopReason =
        (\<lambda>em ast stoppables. if stoppables = [] then None else Some ''Breakpoint''),
      getReferenceForValue = (\<lambda>vm r env. (int vm, Suc vm)),
      getVariablesByReference = (\<lambda>vm r reference. ((), vm)),
      evaluate = (\<lambda>vm r frameId expression. ((), vm)),
      clean = (\<lambda>vm. 0)\<rparr>"

text \<open>
  A call stack of depth two: the program at the bottom, and above it a call of the
  function \<open>f\<close> made at line 3, column 4 of the file \<open>a\<close>.
\<close>

definition exampleStack :: "executionContext list" where
  "exampleStack =
     [\<lparr>function_ctx = None, loc_ctx = None,
       lexicalEnvironment = LexicalEnvironment GlobalEnvironmentRecord None\<rparr>,
      \<lparr>function_ctx = Some \<lparr>originalName = Some ''f''\<rparr>,
       loc_ctx = Some \<lparr>source = Some ''a'', start = \<lparr>line = 3, column = 4\<rparr>\<rparr>,
       lexicalEnvironment =
         LexicalEnvironment DeclarativeEnvironmentRecord
           (Some (LexicalEnvironment (FunctionEnvironmentRecord \<lparr>originalName = Some ''f''\<rparr>)
              (Some (LexicalEnvironment GlobalEnvironmentRecord None))))\<rparr>]"

text \<open>
  A server with the sourcemap prefix \<open>/p/\<close> and one breakpoint, at line 10, column 2 of
  the file \<open>a\<close>.
\<close>

definition exampleServer :: "(breakpoint list, unit, unit, nat, unit, unit) debugServer" where
  "exampleServer =
     \<lparr>breakpointManager = [\<lparr>filePath_bp = ''a'', line_bp = 10, column_bp = 2\<rparr>],
      channel = [],
      realm = \<lparr>contextStack = exampleStack\<rparr>,
      variableManager = 0,
      stepManager = (),
      stopEventManager = (),
      lastExecuted = None,
      sourcemapPrefix = ''/p/'',
      diagnosticSeverity = FatalError\<rparr>"

definition exampleNode :: babelNode where
  "exampleNode = \<lparr>loc = Some \<lparr>source = Some ''a'', start = \<lparr>line = 10, column = 2\<rparr>\<rparr>\<rparr>"

text \<open>
  A server with the sourcemap prefix \<open>/\<close> and breakpoints at line 10, column 2 of the
  files \<open>lib/a.js\<close> and \<open>liba.js\<close>, and a node at that position of \<open>lib/a.js\<close>.
\<close>

definition revisitServer :: "(breakpoint list, unit, unit, nat, unit, unit) debugServer" where
  "revisitServer =
     exampleServer
       \<lparr>breakpointManager := [\<lparr>filePath_bp = ''lib/a.js'', line_bp = 10, column_bp = 2\<rparr>,
                              \<lparr>filePath_bp = ''liba.js'', line_bp = 10, column_bp = 2\<rparr>],
        sourcemapPrefix := ''/''\<rparr>"

definition revisitNode :: babelNode where
  "revisitNode = \<lparr>loc = Some \<lparr>source = Some ''lib/a.js'', start = \<lparr>line = 10, column = 2\<rparr>\<rparr>\<rparr>"

text \<open>A run request, and a request with a command that is none of the twelve.\<close>

definition runRequest :: debuggerRequest where
  "runRequest = \<lparr>id_req = 1, command = PREPACK_RUN_COMMAND, arguments = RunArguments\<rparr>"

definition bogusRequest :: debuggerRequest where
  "bogusRequest = \<lparr>id_req = 2, command = OtherCommand ''bogus'', arguments = RunArguments\<rparr>"

lemmas example_defs = exampleCollaborators_def exampleServer_def exampleNode_def exampleStack_def
  runRequest_def bogusRequest_def

lemmas run_defs = checkForActions_def checkAndUpdateLastExecuted_def locatedSource_def
  processDebuggerCommand_def onDebuggeeResume_def send_def relativeLocation_def
  relativeArguments_def absoluteToRelative_def relativeToAbsolute_def Let_def
  breakpointCommand_def stepCommand_def processStackframesCommand_def processScopesCommand_def
  processVariablesCommand_def processEvaluateCommand_def getFrameLocation_def
  frameFunctionName_def


section \<open>Lemmas\<close>

subsection \<open>Lemmas on replacing the first occurrence\<close>

lemma replaceFirst_prefix:
  "prefix pat s \<Longrightarrow> replaceFirst pat rep s = rep @ drop (length pat) s"
  by (cases s) auto

lemma replaceFirst_append: "replaceFirst pat rep (pat @ s) = rep @ s"
  by (simp add: replaceFirst_prefix)

lemma replaceFirst_first_occurrence:
  "\<forall>i < length u. \<not> prefix pat (drop i (u @ pat @ v)) \<Longrightarrow>
     replaceFirst pat rep (u @ pat @ v) = u @ rep @ v"
proof (induction u)
  case Nil
  then show ?case by (simp add: replaceFirst_append)
next
  case (Cons a u)
  from Cons.prems have here: "\<not> prefix pat ((a # u) @ pat @ v)"
    by (metis drop0 length_greater_0_conv list.distinct(1))
  have "\<forall>i < length u. \<not> prefix pat (drop i (u @ pat @ v))"
  proof (intro allI impI)
    fix i assume "i < length u"
    then have "Suc i < length (a # u)" by simp
    with Cons.prems have "\<not> prefix pat (drop (Suc i) ((a # u) @ pat @ v))" by blast
    then show "\<not> prefix pat (drop i (u @ pat @ v))" by simp
  qed
  then have "replaceFirst pat rep (u @ pat @ v) = u @ rep @ v" by (rule Cons.IH)
  with here show ?case by simp
qed

lemma replaceFirst_no_occurrence:
  "\<forall>i \<le> length s. \<not> prefix pat (drop i s) \<Longrightarrow> replaceFirst pat rep s = s"
proof (induction s)
  case Nil
  then show ?case by auto
next
  case (Cons a s)
  from Cons.prems have here: "\<not> prefix pat (a # s)"
    by (metis drop0 le0)
  have "\<forall>i \<le> length s. \<not> prefix pat (drop i s)"
  proof (intro allI impI)
    fix i assume "i \<le> length s"
    then have "Suc i \<le> length (a # s)" by simp
    with Cons.prems have "\<not> prefix pat (drop (Suc i) (a # s))" by blast
    then show "\<not> prefix pat (drop i s)" by simp
  qed
  then have "replaceFirst pat rep s = s" by (rule Cons.IH)
  with here show ?case by simp
qed

subsection \<open>What a call leaves unchanged\<close>

lemma sameSession_refl: "sameSession s s"
  by (simp add: sameSession_def)

lemma sameSession_trans: "sameSession s t \<Longrightarrow> sameSession t u \<Longrightarrow> sameSession s u"
  by (simp add: sameSession_def)

lemma sameSession_send:
  "\<not> isStoppedResponse m \<Longrightarrow> sameSession s t \<Longrightarrow> sameSession s (send m t)"
  by (simp add: sameSession_def send_def)

lemma sameSession_variableManager:
  "sameSession s t \<Longrightarrow> sameSession s (t\<lparr>variableManager := vm\<rparr>)"
  by (simp add: sameSession_def)

lemma sameSession_stepManager:
  "sameSession s t \<Longrightarrow> sameSession s (t\<lparr>stepManager := sm\<rparr>)"
  by (simp add: sameSession_def)

lemma sameSession_breakpointManager:
  "sameSession s t \<Longrightarrow> sameSession s (t\<lparr>breakpointManager := bm\<rparr>)"
  by (simp add: sameSession_def)

lemmas sameSession_intros = sameSession_refl sameSession_send sameSession_variableManager
  sameSession_stepManager sameSession_breakpointManager

lemma sameSession_processStackframesCommand:
  "sameSession s (processStackframesCommand s requestID l)"
  by (simp add: processStackframesCommand_def Let_def sameSession_intros)

lemma sameSession_processScopesCommand:
  "processScopesCommand C s requestID frameId = (e, s') \<Longrightarrow> sameSession s s'"
  by (auto simp: processScopesCommand_def Let_def sameSession_intros
      split: prod.splits sum.splits if_splits)

lemma sameSession_processVariablesCommand:
  "sameSession s (processVariablesCommand C s requestID reference)"
  by (auto simp: processVariablesCommand_def sameSession_intros split: prod.splits)

lemma sameSession_processEvaluateCommand:
  "sameSession s (processEvaluateCommand C s requestID frameId expression)"
  by (auto simp: processEvaluateCommand_def sameSession_intros split: prod.splits)

lemma sameSession_onDebuggeeResume: "sameSession s t \<Longrightarrow> sameSession s (onDebuggeeResume C t)"
  by (simp add: onDebuggeeResume_def sameSession_intros)

lemma sameSession_breakpointCommand:
  "breakpointCommand method ack requestID args s = (res, s') \<Longrightarrow> sameSession s s'"
  by (auto simp: breakpointCommand_def sameSession_intros split: arguments.splits)

lemma sameSession_stepCommand: "stepCommand C kind l s = (res, s') \<Longrightarrow> sameSession s s'"
  by (auto simp: stepCommand_def sameSession_intros sameSession_onDebuggeeResume
      split: option.splits)

lemma processDebuggerCommand_location:
  "snd (snd (processDebuggerCommand C s request l)) = relativeLocation (sourcemapPrefix s) l"
  by (simp add: processDebuggerCommand_def Let_def split: prod.splits)

lemma sameSession_processDebuggerCommand:
  "sameSession s (fst (snd (processDebuggerCommand C s request l)))"
proof -
  note frames = sameSession_refl
    sameSession_onDebuggeeResume sameSession_processStackframesCommand
    sameSession_processVariablesCommand sameSession_processEvaluateCommand
  show ?thesis
  proof (cases "command request")
    case SCOPES_COMMAND
    then show ?thesis
      by (auto simp: processDebuggerCommand_def Let_def frames
          split: prod.splits arguments.splits option.splits
          dest: sameSession_processScopesCommand)
  qed (auto simp: processDebuggerCommand_def Let_def frames split: prod.splits arguments.splits
       dest: sameSession_breakpointCommand sameSession_stepCommand)
qed

lemma processDebuggerCommand_frame:
  "processDebuggerCommand C s request l = (res, s', l') \<Longrightarrow>
     sameSession s s' \<and> l' = relativeLocation (sourcemapPrefix s) l"
  using sameSession_processDebuggerCommand [of s C request l]
    processDebuggerCommand_location [of C s request l]
  by simp

lemma sameSession_waitForRun:
  "waitForRun C s l requests = (c, s', l', requests') \<Longrightarrow> sameSession s s'"
proof (induction requests arbitrary: s l)
  case Nil
  then show ?case by (simp add: sameSession_refl)
next
  case (Cons request requests)
  obtain res s1 l1 where step: "processDebuggerCommand C s request l = (res, s1, l1)"
    by (cases "processDebuggerCommand C s request l") auto
  then have frame: "sameSession s s1"
    by (simp add: processDebuggerCommand_frame)
  show ?case
  proof (cases res)
    case (Inl e)
    with Cons.prems step frame show ?thesis by simp
  next
    case (Inr keepRunning)
    show ?thesis
    proof (cases keepRunning)
      case True
      with Cons.prems step frame Inr show ?thesis by simp
    next
      case False
      with Cons.prems step Inr have "waitForRun C s1 l1 requests = (c, s', l', requests')"
        by simp
      then have "sameSession s1 s'" by (rule Cons.IH)
      with frame show ?thesis by (rule sameSession_trans)
    qed
  qed
qed

lemma locatedSource_Some:
  "locatedSource l = Some (l', src) \<longleftrightarrow> l = Some l' \<and> source l' = Some src \<and> src \<noteq> []"
  by (auto simp: locatedSource_def split: option.splits)

lemma locatedSource_None:
  "locatedSource l = None \<longleftrightarrow>
     l = None \<or> (\<exists>l'. l = Some l' \<and> (source l' = None \<or> source l' = Some []))"
  by (auto simp: locatedSource_def split: option.splits)

subsection \<open>The marker\<close>

lemma locatedSource_locationKey:
  "locationKey a = locationKey ast \<Longrightarrow>
     locatedSource (loc ast) = None \<Longrightarrow> locatedSource (loc a) = None"
  by (auto simp: locationKey_def locatedSource_def split: option.splits if_splits)

lemma locatedSource_locationKey_Some:
  "locationKey a = locationKey ast \<Longrightarrow> locatedSource (loc ast) = Some (l, src) \<Longrightarrow>
     \<exists>l'. locatedSource (loc a) = Some (l', src) \<and> start l' = start l"
  by (auto simp: locationKey_def locatedSource_def split: option.splits if_splits)

lemma checkForActions_duplicate:
  assumes "locatedSource (loc a) = Some (l, src)"
    and "lastExecuted t = Some \<lparr>filePath = src, line_sd = line (start l),
           column_sd = column (start l), stackSize = length (contextStack (realm t))\<rparr>"
  shows "checkForActions C t a requests = (Returned, t, a, requests)"
  using assms by (simp add: checkForActions_def checkAndUpdateLastExecuted_def Let_def)

lemma checkAndUpdateLastExecuted_marker:
  assumes "locatedSource (loc a) = Some (l, src)"
    and "checkAndUpdateLastExecuted t a = (b, t')"
  shows "lastExecuted t' = Some \<lparr>filePath = src, line_sd = line (start l),
           column_sd = column (start l), stackSize = length (contextStack (realm t))\<rparr>
         \<and> realm t' = realm t"
  using assms
  by (cases "lastExecuted t")
     (auto simp: checkAndUpdateLastExecuted_def Let_def split: if_splits)

lemma checkAndUpdateLastExecuted_frame:
  "checkAndUpdateLastExecuted t a = (b, t') \<Longrightarrow> realm t' = realm t"
  by (auto simp: checkAndUpdateLastExecuted_def Let_def split: if_splits option.splits)

lemma checkForActions_marker:
  assumes ls: "locatedSource (loc a) = Some (l, src)"
    and run: "checkForActions C t a requests = (c, t', a', requests')"
  shows "lastExecuted t' = Some \<lparr>filePath = src, line_sd = line (start l),
           column_sd = column (start l), stackSize = length (contextStack (realm t))\<rparr>
         \<and> realm t' = realm t"
proof -
  let ?key = "\<lparr>filePath = src, line_sd = line (start l),
           column_sd = column (start l), stackSize = length (contextStack (realm t))\<rparr>"
  obtain b t1 where check: "checkAndUpdateLastExecuted t a = (b, t1)"
    by (cases "checkAndUpdateLastExecuted t a") auto
  with ls have t1: "lastExecuted t1 = Some ?key \<and> realm t1 = realm t"
    by (rule checkAndUpdateLastExecuted_marker)
  show ?thesis
  proof (cases b)
    case False
    with run check t1 show ?thesis by (simp add: checkForActions_def)
  next
    case True
    obtain stoppables sm' where
      st: "getAndDeleteCompletedSteppers C (stepManager t1) (realm t1) a = (stoppables, sm')"
      by (cases "getAndDeleteCompletedSteppers C (stepManager t1) (realm t1) a") auto
    let ?s2 = "t1\<lparr>stepManager := sm'\<rparr>"
    let ?reason = "getDebuggeeStopReason C (stopEventManager ?s2) a
        (case getStoppableBreakpoint C (breakpointManager ?s2) a of
           None \<Rightarrow> stoppables | Some b \<Rightarrow> stoppables @ [b])"
    show ?thesis
    proof (cases "\<exists>r. ?reason = Some r \<and> r \<noteq> []")
      case False
      then have "t' = ?s2"
        using run check True st
        by (auto simp: checkForActions_def Let_def split: option.splits if_splits)
      with t1 show ?thesis by simp
    next
      case stop: True
      then obtain r where r: "?reason = Some r" "r \<noteq> []" by blast
      let ?s3 = "send (StoppedResponse r (relativeToAbsolute (sourcemapPrefix ?s2) src)
          (line (start l)) (column (start l)) None) ?s2"
      obtain c4 s4 l4 rs4 where w: "waitForRun C ?s3 (Some l) requests = (c4, s4, l4, rs4)"
        by (cases "waitForRun C ?s3 (Some l) requests") auto
      then have "sameSession ?s3 s4" by (rule sameSession_waitForRun)
      then have s4: "lastExecuted s4 = lastExecuted t1 \<and> realm s4 = realm t1"
        by (simp add: sameSession_def send_def)
      have "t' = s4"
        using run check True st r ls w
        by (simp add: checkForActions_def Let_def)
      with s4 t1 show ?thesis by simp
    qed
  qed
qed

lemma checkForActions_same_position:
  assumes same: "locationKey a = locationKey ast"
    and marker: "\<And>l src. locatedSource (loc ast) = Some (l, src) \<Longrightarrow>
        lastExecuted t = Some \<lparr>filePath = src, line_sd = line (start l),
           column_sd = column (start l), stackSize = length (contextStack (realm t))\<rparr>"
  shows "checkForActions C t a requests = (Returned, t, a, requests)"
proof (cases "locatedSource (loc ast)")
  case None
  with same have "locatedSource (loc a) = None" by (rule locatedSource_locationKey)
  then show ?thesis
    by (simp add: checkForActions_def checkAndUpdateLastExecuted_def)
next
  case (Some ls)
  obtain l src where ls: "ls = (l, src)" by (cases ls) auto
  with Some same obtain l' where l': "locatedSource (loc a) = Some (l', src)" "start l' = start l"
    using locatedSource_locationKey_Some by blast
  from marker [of l src] Some ls l'
  have "lastExecuted t = Some \<lparr>filePath = src, line_sd = line (start l'),
           column_sd = column (start l'), stackSize = length (contextStack (realm t))\<rparr>"
    by simp
  with l'(1) show ?thesis by (rule checkForActions_duplicate)
qed

lemma checkpointRun_same_position:
  assumes run: "\<forall>(r, a) \<in> set rest. locationKey a = locationKey ast \<and> length (contextStack r) = n"
    and marker: "\<And>l src. locatedSource (loc ast) = Some (l, src) \<Longrightarrow>
        lastExecuted t = Some \<lparr>filePath = src, line_sd = line (start l),
           column_sd = column (start l), stackSize = n\<rparr>"
  shows "\<exists>r. checkpointRun C t rest requests = (Returned, t\<lparr>realm := r\<rparr>, requests)"
  using run marker
proof (induction rest arbitrary: t)
  case Nil
  have "t\<lparr>realm := realm t\<rparr> = t" by simp
  then show ?case by (metis checkpointRun.simps(1))
next
  case (Cons ra rest)
  obtain r a where ra: "ra = (r, a)" by (cases ra) auto
  with Cons.prems(1) have a: "locationKey a = locationKey ast" "length (contextStack r) = n"
    by auto
  let ?t = "t\<lparr>realm := r\<rparr>"
  have mk: "lastExecuted ?t = Some \<lparr>filePath = src, line_sd = line (start l),
           column_sd = column (start l), stackSize = length (contextStack (realm ?t))\<rparr>"
    if "locatedSource (loc ast) = Some (l, src)" for l src
    using Cons.prems(2) [OF that] a(2) by simp
  have step: "checkForActions C ?t a requests = (Returned, ?t, a, requests)"
    using a(1) mk by (rule checkForActions_same_position)
  have "\<exists>r'. checkpointRun C ?t rest requests = (Returned, ?t\<lparr>realm := r'\<rparr>, requests)"
  proof (rule Cons.IH)
    show "\<forall>(r, a) \<in> set rest. locationKey a = locationKey ast \<and> length (contextStack r) = n"
      using Cons.prems(1) by simp
    show "lastExecuted ?t = Some \<lparr>filePath = src, line_sd = line (start l),
           column_sd = column (start l), stackSize = n\<rparr>"
      if "locatedSource (loc ast) = Some (l, src)" for l src
      using Cons.prems(2) [OF that] by simp
  qed
  then obtain r' where
    "checkpointRun C ?t rest requests = (Returned, ?t\<lparr>realm := r'\<rparr>, requests)" by blast
  with step ra have "checkpointRun C t (ra # rest) requests = (Returned, t\<lparr>realm := r'\<rparr>, requests)"
    by simp
  then show ?case by blast
qed

subsection \<open>Frames and scopes\<close>

lemma stackframesLoop_length: "length (stackframesLoop p cs n l) = n"
  by (induction n arbitrary: l) (simp_all add: Let_def)

lemma stackframesLoop_nth:
  "k < n \<Longrightarrow> n \<le> length cs \<Longrightarrow>
   stackframesLoop p cs n l ! k =
     (let shown = (if k = 0 then l else getFrameLocation (loc_ctx (cs ! (n - k))))
      in \<lparr>id_frame = int (length cs) - int n + int k,
          functionName = frameFunctionName (cs ! (n - 1 - k)),
          fileName = p @ fst shown,
          line_frame = fst (snd shown),
          column_frame = snd (snd shown)\<rparr>)"
proof (induction n arbitrary: l k)
  case 0
  then show ?case by simp
next
  case (Suc n)
  show ?case
  proof (cases k)
    case 0
    then show ?thesis by (simp add: Let_def relativeToAbsolute_def)
  next
    case (Suc k')
    with Suc.prems have k': "k' < n" "n \<le> length cs" by simp_all
    have "stackframesLoop p cs (Suc n) l ! k =
        stackframesLoop p cs n (getFrameLocation (loc_ctx (cs ! n))) ! k'"
      using Suc by (simp add: Let_def)
    also have "\<dots> =
      (let shown = (if k' = 0 then getFrameLocation (loc_ctx (cs ! n))
                    else getFrameLocation (loc_ctx (cs ! (n - k'))))
       in \<lparr>id_frame = int (length cs) - int n + int k',
           functionName = frameFunctionName (cs ! (n - 1 - k')),
           fileName = p @ fst shown,
           line_frame = fst (snd shown),
           column_frame = snd (snd shown)\<rparr>)"
      using k' by (rule Suc.IH)
    finally show ?thesis
      using Suc by (cases "k' = 0") (simp_all add: Let_def)
  qed
qed

lemma scopesLoop_known:
  "\<forall>e \<in> set (environmentChain env). environmentRecord e \<noteq> OtherEnvironmentRecord \<Longrightarrow>
   \<exists>scopes. scopesLoop C r vm env
               = (Inr scopes, snd (registerAll C r vm (environmentChain env)))
     \<and> map (\<lambda>sc. Inr (name sc)) scopes
         = map (\<lambda>e. getScopeName (environmentRecord e)) (environmentChain env)
     \<and> map variablesReference scopes = fst (registerAll C r vm (environmentChain env))
     \<and> (\<forall>sc \<in> set scopes. \<not> expensive sc)"
proof (induction env arbitrary: vm rule: environmentChain.induct)
  case (1 envRec par)
  let ?env = "LexicalEnvironment envRec par"
  from "1.prems" have "envRec \<noteq> OtherEnvironmentRecord" by simp
  then obtain n where n: "getScopeName envRec = Inr n"
    by (cases envRec) simp_all
  obtain ref vm' where reg: "getReferenceForValue C vm r ?env = (ref, vm')"
    by (cases "getReferenceForValue C vm r ?env") auto
  let ?scope = "\<lparr>name = n, variablesReference = ref, expensive = False\<rparr>"
  show ?case
  proof (cases par)
    case None
    with n reg show ?thesis by (simp add: Let_def)
  next
    case (Some lexicalEnv)
    with "1.prems" have
      "\<forall>e \<in> set (environmentChain lexicalEnv). environmentRecord e \<noteq> OtherEnvironmentRecord"
      by simp
    from "1.IH" [OF Some this, of vm'] obtain scopes where
      rest: "scopesLoop C r vm' lexicalEnv
               = (Inr scopes, snd (registerAll C r vm' (environmentChain lexicalEnv)))"
        "map (\<lambda>sc. Inr (name sc)) scopes
           = map (\<lambda>e. getScopeName (environmentRecord e)) (environmentChain lexicalEnv)"
        "map variablesReference scopes = fst (registerAll C r vm' (environmentChain lexicalEnv))"
        "\<forall>sc \<in> set scopes. \<not> expensive sc"
      by blast
    have "scopesLoop C r vm ?env
            = (Inr (?scope # scopes), snd (registerAll C r vm (environmentChain ?env)))"
      using n reg Some rest(1) by (simp add: Let_def split: prod.splits)
    moreover have "map (\<lambda>sc. Inr (name sc)) (?scope # scopes)
         = map (\<lambda>e. getScopeName (environmentRecord e)) (environmentChain ?env)"
      using n Some rest(2) by simp
    moreover have "map variablesReference (?scope # scopes)
         = fst (registerAll C r vm (environmentChain ?env))"
      using reg Some rest(3) by (simp split: prod.splits)
    moreover have "\<forall>sc \<in> set (?scope # scopes). \<not> expensive sc"
      using rest(4) by simp
    ultimately show ?thesis by blast
  qed
qed

lemma relativeLocation_Some:
  "relativeLocation p (Some l) = Some (l\<lparr>source := map_option (absoluteToRelative p) (source l)\<rparr>)"
proof (cases "source l")
  case None
  then show ?thesis by (simp add: relativeLocation_def locatedSource_def)
next
  case (Some src)
  have "absoluteToRelative p [] = []"
    by (simp add: absoluteToRelative_def)
  with Some show ?thesis
    by (cases "src = []") (simp_all add: relativeLocation_def locatedSource_def)
qed

subsection \<open>The node after a checkpoint\<close>

lemma relativeLocation_fixed:
  assumes "p = [] \<or> (\<forall>l src. x = Some l \<and> source l = Some src
             \<longrightarrow> (\<forall>i \<le> length src. \<not> occursAt p src i))"
  shows "relativeLocation p x = x"
proof (cases x)
  case None
  then show ?thesis by (simp add: relativeLocation_def locatedSource_def)
next
  case (Some l)
  have "map_option (absoluteToRelative p) (source l) = source l"
  proof (cases "source l")
    case None
    then show ?thesis by simp
  next
    case src: (Some src)
    have "absoluteToRelative p src = src"
    proof (cases "p = []")
      case True
      then show ?thesis by (cases src) (simp_all add: absoluteToRelative_def)
    next
      case False
      with assms Some src have "\<forall>i \<le> length src. \<not> prefix p (drop i src)"
        by (auto simp: occursAt_def)
      then show ?thesis by (simp add: absoluteToRelative_def replaceFirst_no_occurrence)
    qed
    with src show ?thesis by simp
  qed
  with Some show ?thesis by (simp add: relativeLocation_Some)
qed

lemma waitForRun_location_fixed:
  "relativeLocation (sourcemapPrefix s) l = l \<Longrightarrow>
   waitForRun C s l requests = (c, s', l', requests') \<Longrightarrow> l' = l"
proof (induction requests arbitrary: s)
  case Nil
  then show ?case by simp
next
  case (Cons request requests)
  obtain res s1 l1 where step: "processDebuggerCommand C s request l = (res, s1, l1)"
    by (cases "processDebuggerCommand C s request l") auto
  from processDebuggerCommand_frame [OF step] Cons.prems(1)
  have frame: "sameSession s s1" "l1 = l"
    by simp_all
  then have p: "relativeLocation (sourcemapPrefix s1) l = l"
    using Cons.prems(1) by (simp add: sameSession_def)
  show ?case
  proof (cases res)
    case (Inl e)
    with Cons.prems step frame show ?thesis by simp
  next
    case (Inr keepRunning)
    show ?thesis
    proof (cases keepRunning)
      case True
      with Cons.prems step frame Inr show ?thesis by simp
    next
      case False
      with Cons.prems step Inr frame have "waitForRun C s1 l requests = (c, s', l', requests')"
        by simp
      with p show ?thesis by (rule Cons.IH)
    qed
  qed
qed

lemma checkForActions_cases:
  assumes "checkForActions C s ast requests = (c, s1, ast1, requests1)"
  obtains (quiet) "ast1 = ast"
  | (stop) l s3 stopped l' where "loc ast = Some l"
      "sourcemapPrefix s3 = sourcemapPrefix s"
      "filter isStoppedResponse (channel s3) = filter isStoppedResponse (channel s) @ [stopped]"
      "waitForRun C s3 (Some l) requests = (c, s1, l', requests1)"
      "ast1 = ast\<lparr>loc := l'\<rparr>"
proof -
  obtain b t1 where check: "checkAndUpdateLastExecuted s ast = (b, t1)"
    by (cases "checkAndUpdateLastExecuted s ast") auto
  then have t1: "sourcemapPrefix t1 = sourcemapPrefix s" "channel t1 = channel s"
    by (auto simp: checkAndUpdateLastExecuted_def Let_def split: option.splits if_splits)
  show ?thesis
  proof (cases b)
    case False
    with assms check have "ast1 = ast" by (simp add: checkForActions_def)
    then show ?thesis by (rule quiet)
  next
    case True
    obtain stoppables sm' where
      st: "getAndDeleteCompletedSteppers C (stepManager t1) (realm t1) ast = (stoppables, sm')"
      by (cases "getAndDeleteCompletedSteppers C (stepManager t1) (realm t1) ast") auto
    let ?s2 = "t1\<lparr>stepManager := sm'\<rparr>"
    let ?reason = "getDebuggeeStopReason C (stopEventManager ?s2) ast
        (case getStoppableBreakpoint C (breakpointManager ?s2) ast of
           None \<Rightarrow> stoppables | Some b \<Rightarrow> stoppables @ [b])"
    show ?thesis
    proof (cases "\<exists>r. ?reason = Some r \<and> r \<noteq> []")
      case False
      then have "ast1 = ast"
        using assms check True st
        by (auto simp: checkForActions_def Let_def split: option.splits if_splits)
      then show ?thesis by (rule quiet)
    next
      case yes: True
      then obtain r where r: "?reason = Some r" "r \<noteq> []" by blast
      show ?thesis
      proof (cases "locatedSource (loc ast)")
        case None
        then have "ast1 = ast"
          using assms check True st r by (simp add: checkForActions_def Let_def)
        then show ?thesis by (rule quiet)
      next
        case (Some ls)
        obtain l src where ls: "ls = (l, src)" by (cases ls) auto
        let ?stopped = "StoppedResponse r (relativeToAbsolute (sourcemapPrefix ?s2) src)
          (line (start l)) (column (start l)) None"
        let ?s3 = "send ?stopped ?s2"
        obtain c4 s4 l4 rs4 where w: "waitForRun C ?s3 (Some l) requests = (c4, s4, l4, rs4)"
          by (cases "waitForRun C ?s3 (Some l) requests") auto
        have res: "c = c4" "s1 = s4" "ast1 = ast\<lparr>loc := l4\<rparr>" "requests1 = rs4"
          using assms check True st r Some ls w
          by (simp_all add: checkForActions_def Let_def)
        show ?thesis
        proof (rule stop)
          show "loc ast = Some l" using Some ls by (simp add: locatedSource_Some)
          show "sourcemapPrefix ?s3 = sourcemapPrefix s" using t1 by (simp add: send_def)
          show "filter isStoppedResponse (channel ?s3)
              = filter isStoppedResponse (channel s) @ [?stopped]"
            using t1 by (simp add: send_def)
          show "waitForRun C ?s3 (Some l) requests = (c, s1, l4, requests1)"
            using w res by simp
          show "ast1 = ast\<lparr>loc := l4\<rparr>" by (rule res(3))
        qed
      qed
    qed
  qed
qed

lemma checkForActions_node_fixed:
  assumes run: "checkForActions C s ast requests = (c, s1, ast1, requests1)"
    and fixed: "relativeLocation (sourcemapPrefix s) (loc ast) = loc ast
        \<or> filter isStoppedResponse (channel s1) = filter isStoppedResponse (channel s)"
  shows "ast1 = ast"
  using run
proof (cases rule: checkForActions_cases)
  case quiet
  then show ?thesis .
next
  case (stop l s3 stopped l')
  from stop(4) have "sameSession s3 s1" by (rule sameSession_waitForRun)
  with stop(3) have "filter isStoppedResponse (channel s1)
      = filter isStoppedResponse (channel s) @ [stopped]"
    by (simp add: sameSession_def)
  with fixed have "relativeLocation (sourcemapPrefix s) (loc ast) = loc ast" by auto
  with stop(1,2) have "relativeLocation (sourcemapPrefix s3) (Some l) = Some l" by simp
  from waitForRun_location_fixed [OF this stop(4)] stop(1,5) show ?thesis by simp
qed

section \<open>Verified properties\<close>

subsection \<open>The checkpoint\<close>

text \<open>
  C1. A checkpoint on a located node that is not a duplicate of the last executed one
  (its location has a non-empty source, and its file, line, column and the stack depth
  differ from the marker): if the arbiter returns a reason, exactly one stopped
  notification is sent, carrying the reason, the source with the prefix prepended, and
  the start line and column, and the command loop is entered with this location; if no
  reason is returned, no notification is sent and the call returns without reading a
  request. In both cases the marker is this position and the step manager is as the
  query for completed steppers left it.
\<close>

theorem checkForActions_stop:
  assumes located: "loc ast = Some l" "source l = Some src" "src \<noteq> []"
    and key: "key = \<lparr>filePath = src, line_sd = line (start l), column_sd = column (start l),
                     stackSize = length (contextStack (realm s))\<rparr>"
    and nondup: "lastExecuted s \<noteq> Some key"
    and steppers: "getAndDeleteCompletedSteppers C (stepManager s) (realm s) ast = (stoppables, sm')"
    and s2: "s2 = s\<lparr>lastExecuted := Some key, stepManager := sm'\<rparr>"
    and reason: "reason = getDebuggeeStopReason C (stopEventManager s) ast
                   (case getStoppableBreakpoint C (breakpointManager s) ast of
                      None \<Rightarrow> stoppables | Some b \<Rightarrow> stoppables @ [b])"
    and stopped: "stopped = StoppedResponse r (sourcemapPrefix s @ src) (line (start l))
                    (column (start l)) None"
  shows "(reason = Some r \<and> r \<noteq> [] \<longrightarrow>
            checkForActions C s ast requests =
              (case waitForRun C (send stopped s2) (Some l) requests of
                 (c, s4, l', requests') \<Rightarrow> (c, s4, ast\<lparr>loc := l'\<rparr>, requests'))
            \<and> filter isStoppedResponse (channel (fst (snd (checkForActions C s ast requests))))
                = filter isStoppedResponse (channel s) @ [stopped])
       \<and> (reason = None \<or> reason = Some [] \<longrightarrow>
            checkForActions C s ast requests = (Returned, s2, ast, requests)
            \<and> channel s2 = channel s)"
proof -
  from located have ls: "locatedSource (loc ast) = Some (l, src)"
    by (simp add: locatedSource_Some)
  from nondup key have check:
    "checkAndUpdateLastExecuted s ast = (True, s\<lparr>lastExecuted := Some key\<rparr>)"
    by (cases "lastExecuted s") (auto simp: checkAndUpdateLastExecuted_def ls Let_def)
  have quiet: "checkForActions C s ast requests = (Returned, s2, ast, requests)"
    if "reason = None \<or> reason = Some []"
    using that reason steppers s2
    by (auto simp: checkForActions_def check Let_def)
  have loud: "checkForActions C s ast requests =
      (case waitForRun C (send stopped s2) (Some l) requests of
         (c, s4, l', requests') \<Rightarrow> (c, s4, ast\<lparr>loc := l'\<rparr>, requests'))"
    if "reason = Some r" "r \<noteq> []"
    using that reason steppers s2 stopped
    by (simp add: checkForActions_def check Let_def ls relativeToAbsolute_def)
  have count: "filter isStoppedResponse (channel (fst (snd (checkForActions C s ast requests))))
      = filter isStoppedResponse (channel s) @ [stopped]"
    if "reason = Some r" "r \<noteq> []"
  proof -
    obtain c s4 l' requests' where
      w: "waitForRun C (send stopped s2) (Some l) requests = (c, s4, l', requests')"
      by (cases "waitForRun C (send stopped s2) (Some l) requests") auto
    then have "sameSession (send stopped s2) s4" by (rule sameSession_waitForRun)
    then have "filter isStoppedResponse (channel s4)
        = filter isStoppedResponse (channel (send stopped s2))"
      by (simp add: sameSession_def)
    also have "\<dots> = filter isStoppedResponse (channel s) @ [stopped]"
      by (simp add: send_def s2 stopped)
    finally show ?thesis
      using loud [OF that] w by simp
  qed
  from quiet loud count s2 show ?thesis by simp
qed

theorem checkForActions_stop_witness:
  "loc exampleNode = Some \<lparr>source = Some ''a'', start = \<lparr>line = 10, column = 2\<rparr>\<rparr>
   \<and> lastExecuted exampleServer
       \<noteq> Some \<lparr>filePath = ''a'', line_sd = 10, column_sd = 2, stackSize = 2\<rparr>
   \<and> checkForActions exampleCollaborators exampleServer exampleNode [runRequest]
       = (Returned,
          exampleServer
            \<lparr>lastExecuted := Some \<lparr>filePath = ''a'', line_sd = 10, column_sd = 2, stackSize = 2\<rparr>,
             channel := [StoppedResponse ''Breakpoint'' ''/p/a'' 10 2 None]\<rparr>,
          exampleNode, [])
   \<and> checkForActions exampleCollaborators (exampleServer\<lparr>breakpointManager := []\<rparr>) exampleNode
        [runRequest]
       = (Returned,
          exampleServer
            \<lparr>breakpointManager := [],
             lastExecuted := Some \<lparr>filePath = ''a'', line_sd = 10, column_sd = 2, stackSize = 2\<rparr>\<rparr>,
          exampleNode, [runRequest])"
proof -
  let ?l = "\<lparr>source = Some ''a'', start = \<lparr>line = 10, column = 2\<rparr>\<rparr>"
  let ?key = "\<lparr>filePath = ''a'', line_sd = 10, column_sd = 2, stackSize = 2\<rparr>"
  let ?stopped = "StoppedResponse ''Breakpoint'' ''/p/a'' 10 2 None"
  let ?s2 = "exampleServer\<lparr>lastExecuted := Some ?key, stepManager := ()\<rparr>"
  let ?t = "exampleServer\<lparr>breakpointManager := []\<rparr>"
  let ?t2 = "?t\<lparr>lastExecuted := Some ?key, stepManager := ()\<rparr>"
  have located: "loc exampleNode = Some ?l" "source ?l = Some ''a''" "''a'' \<noteq> []"
    by (simp_all add: example_defs)
  have fresh: "lastExecuted exampleServer \<noteq> Some ?key" "lastExecuted ?t \<noteq> Some ?key"
    by (simp_all add: example_defs)
  have reason: "getDebuggeeStopReason exampleCollaborators (stopEventManager exampleServer)
        exampleNode
        (case getStoppableBreakpoint exampleCollaborators (breakpointManager exampleServer)
                exampleNode of
           None \<Rightarrow> [] | Some b \<Rightarrow> [] @ [b]) = Some ''Breakpoint''"
    by (simp add: example_defs locatedSource_def)
  have no_reason: "getDebuggeeStopReason exampleCollaborators (stopEventManager ?t) exampleNode
        (case getStoppableBreakpoint exampleCollaborators (breakpointManager ?t) exampleNode of
           None \<Rightarrow> [] | Some b \<Rightarrow> [] @ [b]) = None"
    by (simp add: example_defs locatedSource_def)
  have "checkForActions exampleCollaborators exampleServer exampleNode [runRequest]
      = (case waitForRun exampleCollaborators (send ?stopped ?s2) (Some ?l) [runRequest] of
           (c, s4, l', requests') \<Rightarrow> (c, s4, exampleNode\<lparr>loc := l'\<rparr>, requests'))"
    using checkForActions_stop
      [OF located, where s = exampleServer and C = exampleCollaborators and key = ?key
         and stoppables = "[]" and sm' = "()" and ?s2.0 = ?s2
         and reason = "Some ''Breakpoint''" and r = "''Breakpoint''" and stopped = ?stopped
         and requests = "[runRequest]"]
      fresh(1) reason
    by (simp add: example_defs)
  then have stop: "checkForActions exampleCollaborators exampleServer exampleNode [runRequest]
      = (Returned, exampleServer\<lparr>lastExecuted := Some ?key, channel := [?stopped]\<rparr>,
         exampleNode, [])"
    by (simp add: example_defs run_defs)
  have "checkForActions exampleCollaborators ?t exampleNode [runRequest]
      = (Returned, ?t2, exampleNode, [runRequest])"
    using checkForActions_stop
      [OF located, where s = ?t and C = exampleCollaborators and key = ?key
         and stoppables = "[]" and sm' = "()" and ?s2.0 = ?t2
         and reason = None and r = "''Breakpoint''" and stopped = ?stopped
         and requests = "[runRequest]"]
      fresh(2) no_reason
    by (simp add: example_defs)
  then have quiet: "checkForActions exampleCollaborators ?t exampleNode [runRequest]
      = (Returned, exampleServer\<lparr>breakpointManager := [], lastExecuted := Some ?key\<rparr>,
         exampleNode, [runRequest])"
    by (simp add: example_defs)
  from located(1) fresh(1) stop quiet show ?thesis by simp
qed

text \<open>
  C2 (as amended). The nodes of a run are taken with the field values they have when
  they are passed in. After a checkpoint that has returned, a run of further checkpoints
  on nodes with the source file, start line and start column the first node had when it
  was passed in, at an unchanged depth of the call stack, does nothing: no request is
  read and the server, with its channel and its marker, is as it was after the first,
  whatever call stacks of that depth the engine has meanwhile. So only the first
  checkpoint of such a run can send a stopped notification. The first node itself comes
  back unchanged, and a further checkpoint on it does nothing, when the sourcemap prefix
  is empty, or does not occur in the node's source, or the first checkpoint has sent no
  stopped notification. A checkpoint on a located node that differs from the marker in
  one of the four components sets the marker to the four components of this checkpoint.
\<close>

theorem checkpoint_deduplication:
  "(checkForActions C s ast requests = (Returned, s1, ast1, requests1)
      \<and> (\<forall>(r, a) \<in> set rest. locationKey a = locationKey ast
            \<and> length (contextStack r) = length (contextStack (realm s)))
      \<longrightarrow> (\<exists>r. checkpointRun C s1 rest requests1 = (Returned, s1\<lparr>realm := r\<rparr>, requests1)))
   \<and> (checkForActions C s ast requests = (Returned, s1, ast1, requests1)
        \<and> (sourcemapPrefix s = []
             \<or> (\<forall>l src. loc ast = Some l \<and> source l = Some src
                   \<longrightarrow> (\<forall>i \<le> length src. \<not> occursAt (sourcemapPrefix s) src i))
             \<or> filter isStoppedResponse (channel s1) = filter isStoppedResponse (channel s))
      \<longrightarrow> ast1 = ast
          \<and> checkForActions C s1 ast1 requests1 = (Returned, s1, ast1, requests1))
   \<and> (loc a = Some l \<and> source l = Some src \<and> src \<noteq> []
        \<and> key = \<lparr>filePath = src, line_sd = line (start l), column_sd = column (start l),
                  stackSize = length (contextStack (realm t))\<rparr>
        \<and> lastExecuted t \<noteq> Some key
        \<and> checkForActions C t a requests' = (c, t', a', requests'')
      \<longrightarrow> lastExecuted t' = Some key)"
proof (intro conjI impI)
  assume h: "checkForActions C s ast requests = (Returned, s1, ast1, requests1)
      \<and> (\<forall>(r, a) \<in> set rest. locationKey a = locationKey ast
            \<and> length (contextStack r) = length (contextStack (realm s)))"
  show "\<exists>r. checkpointRun C s1 rest requests1 = (Returned, s1\<lparr>realm := r\<rparr>, requests1)"
  proof (rule checkpointRun_same_position)
    show "\<forall>(r, a) \<in> set rest. locationKey a = locationKey ast
            \<and> length (contextStack r) = length (contextStack (realm s))"
      using h by blast
    show "lastExecuted s1 = Some \<lparr>filePath = src, line_sd = line (start l),
           column_sd = column (start l), stackSize = length (contextStack (realm s))\<rparr>"
      if "locatedSource (loc ast) = Some (l, src)" for l src
      using checkForActions_marker [OF that] h by blast
  qed
next
  assume h: "checkForActions C s ast requests = (Returned, s1, ast1, requests1)
        \<and> (sourcemapPrefix s = []
             \<or> (\<forall>l src. loc ast = Some l \<and> source l = Some src
                   \<longrightarrow> (\<forall>i \<le> length src. \<not> occursAt (sourcemapPrefix s) src i))
             \<or> filter isStoppedResponse (channel s1) = filter isStoppedResponse (channel s))"
  then have run: "checkForActions C s ast requests = (Returned, s1, ast1, requests1)" by blast
  have "relativeLocation (sourcemapPrefix s) (loc ast) = loc ast
        \<or> filter isStoppedResponse (channel s1) = filter isStoppedResponse (channel s)"
    using h relativeLocation_fixed [of "sourcemapPrefix s" "loc ast"] by blast
  with run show same: "ast1 = ast" by (rule checkForActions_node_fixed)
  show "checkForActions C s1 ast1 requests1 = (Returned, s1, ast1, requests1)"
  proof (rule checkForActions_same_position)
    show "locationKey ast1 = locationKey ast" using same by simp
    show "lastExecuted s1 = Some \<lparr>filePath = src, line_sd = line (start l),
           column_sd = column (start l), stackSize = length (contextStack (realm s1))\<rparr>"
      if "locatedSource (loc ast) = Some (l, src)" for l src
      using checkForActions_marker [OF that run] by simp
  qed
next
  assume h: "loc a = Some l \<and> source l = Some src \<and> src \<noteq> []
        \<and> key = \<lparr>filePath = src, line_sd = line (start l), column_sd = column (start l),
                  stackSize = length (contextStack (realm t))\<rparr>
        \<and> lastExecuted t \<noteq> Some key
        \<and> checkForActions C t a requests' = (c, t', a', requests'')"
  then have "locatedSource (loc a) = Some (l, src)" by (simp add: locatedSource_Some)
  from checkForActions_marker [OF this] h show "lastExecuted t' = Some key" by blast
qed

theorem checkpoint_deduplication_witness:
  "checkForActions exampleCollaborators exampleServer exampleNode [runRequest]
     = (Returned,
        exampleServer
          \<lparr>lastExecuted := Some \<lparr>filePath = ''a'', line_sd = 10, column_sd = 2, stackSize = 2\<rparr>,
           channel := [StoppedResponse ''Breakpoint'' ''/p/a'' 10 2 None]\<rparr>,
        exampleNode, [])
   \<and> checkpointRun exampleCollaborators
        (exampleServer
          \<lparr>lastExecuted := Some \<lparr>filePath = ''a'', line_sd = 10, column_sd = 2, stackSize = 2\<rparr>,
           channel := [StoppedResponse ''Breakpoint'' ''/p/a'' 10 2 None]\<rparr>)
        [(\<lparr>contextStack = exampleStack\<rparr>, exampleNode),
         (\<lparr>contextStack = rev exampleStack\<rparr>, exampleNode)] []
     = (Returned,
        exampleServer
          \<lparr>lastExecuted := Some \<lparr>filePath = ''a'', line_sd = 10, column_sd = 2, stackSize = 2\<rparr>,
           channel := [StoppedResponse ''Breakpoint'' ''/p/a'' 10 2 None],
           realm := \<lparr>contextStack = rev exampleStack\<rparr>\<rparr>, [])
   \<and> checkForActions exampleCollaborators
        (exampleServer
          \<lparr>lastExecuted := Some \<lparr>filePath = ''a'', line_sd = 10, column_sd = 2, stackSize = 2\<rparr>,
           channel := [StoppedResponse ''Breakpoint'' ''/p/a'' 10 2 None]\<rparr>)
        exampleNode []
     = (Returned,
        exampleServer
          \<lparr>lastExecuted := Some \<lparr>filePath = ''a'', line_sd = 10, column_sd = 2, stackSize = 2\<rparr>,
           channel := [StoppedResponse ''Breakpoint'' ''/p/a'' 10 2 None]\<rparr>,
        exampleNode, [])
   \<and> lastExecuted exampleServer
       \<noteq> Some \<lparr>filePath = ''a'', line_sd = 10, column_sd = 2, stackSize = 2\<rparr>"
proof -
  let ?key = "\<lparr>filePath = ''a'', line_sd = 10, column_sd = 2, stackSize = 2\<rparr>"
  let ?s1 = "exampleServer\<lparr>lastExecuted := Some ?key,
           channel := [StoppedResponse ''Breakpoint'' ''/p/a'' 10 2 None]\<rparr>"
  let ?rest = "[(\<lparr>contextStack = exampleStack\<rparr>, exampleNode),
         (\<lparr>contextStack = rev exampleStack\<rparr>, exampleNode)]"
  have first: "checkForActions exampleCollaborators exampleServer exampleNode [runRequest]
     = (Returned, ?s1, exampleNode, [])"
    by (simp add: example_defs run_defs)
  have run: "\<forall>(r, a) \<in> set ?rest. locationKey a = locationKey exampleNode
            \<and> length (contextStack r) = length (contextStack (realm exampleServer))"
    by (simp add: example_defs)
  have nowhere: "\<forall>l src. loc exampleNode = Some l \<and> source l = Some src
      \<longrightarrow> (\<forall>i \<le> length src. \<not> occursAt (sourcemapPrefix exampleServer) src i)"
    by (auto simp: example_defs occursAt_def le_Suc_eq)
  have fresh: "lastExecuted exampleServer \<noteq> Some ?key"
    by (simp add: example_defs)
  have located: "loc exampleNode = Some \<lparr>source = Some ''a'', start = \<lparr>line = 10, column = 2\<rparr>\<rparr>"
    by (simp add: example_defs)
  have key: "?key = \<lparr>filePath = ''a'',
      line_sd = line (start \<lparr>source = Some ''a'', start = \<lparr>line = 10, column = 2\<rparr>\<rparr>),
      column_sd = column (start \<lparr>source = Some ''a'', start = \<lparr>line = 10, column = 2\<rparr>\<rparr>),
      stackSize = length (contextStack (realm exampleServer))\<rparr>"
    by (simp add: example_defs)
  note inst = checkpoint_deduplication
      [where C = exampleCollaborators and s = exampleServer and ast = exampleNode
         and requests = "[runRequest]" and ?s1.0 = ?s1 and ?ast1.0 = exampleNode
         and ?requests1.0 = "[]" and rest = ?rest
         and a = exampleNode and l = "\<lparr>source = Some ''a'', start = \<lparr>line = 10, column = 2\<rparr>\<rparr>"
         and src = "''a''" and key = ?key and t = exampleServer and requests' = "[runRequest]"
         and c = Returned and t' = ?s1 and a' = exampleNode and requests'' = "[]"]
  from inst first run have
    "\<exists>r. checkpointRun exampleCollaborators ?s1 ?rest [] = (Returned, ?s1\<lparr>realm := r\<rparr>, [])"
    by blast
  moreover from inst first nowhere have
    again: "checkForActions exampleCollaborators ?s1 exampleNode [] = (Returned, ?s1, exampleNode, [])"
    by blast
  moreover from inst first fresh located key have "lastExecuted ?s1 = Some ?key"
    by simp
  moreover have "checkpointRun exampleCollaborators ?s1 ?rest []
     = (Returned, ?s1\<lparr>realm := \<lparr>contextStack = rev exampleStack\<rparr>\<rparr>, [])"
    by (simp add: example_defs run_defs)
  ultimately show ?thesis using first fresh by simp
qed

text \<open>
  A second checkpoint on the very node of the first, at the same depth: with the prefix
  \<open>/\<close>, the stop at \<open>lib/a.js\<close> and the run request that ends it leave the node
  with the source \<open>liba.js\<close>. The second checkpoint then sets the marker to this
  source, and with a breakpoint at \<open>liba.js\<close> it sends a second stopped notification.
\<close>

theorem checkpoint_revisit_counterexample:
  "checkForActions exampleCollaborators revisitServer revisitNode [runRequest, runRequest]
     = (Returned,
        revisitServer
          \<lparr>lastExecuted :=
             Some \<lparr>filePath = ''lib/a.js'', line_sd = 10, column_sd = 2, stackSize = 2\<rparr>,
           channel := [StoppedResponse ''Breakpoint'' ''/lib/a.js'' 10 2 None]\<rparr>,
        \<lparr>loc = Some \<lparr>source = Some ''liba.js'', start = \<lparr>line = 10, column = 2\<rparr>\<rparr>\<rparr>,
        [runRequest])
   \<and> checkForActions exampleCollaborators
        (revisitServer
          \<lparr>lastExecuted :=
             Some \<lparr>filePath = ''lib/a.js'', line_sd = 10, column_sd = 2, stackSize = 2\<rparr>,
           channel := [StoppedResponse ''Breakpoint'' ''/lib/a.js'' 10 2 None]\<rparr>)
        \<lparr>loc = Some \<lparr>source = Some ''liba.js'', start = \<lparr>line = 10, column = 2\<rparr>\<rparr>\<rparr>
        [runRequest]
     = (Returned,
        revisitServer
          \<lparr>lastExecuted :=
             Some \<lparr>filePath = ''liba.js'', line_sd = 10, column_sd = 2, stackSize = 2\<rparr>,
           channel := [StoppedResponse ''Breakpoint'' ''/lib/a.js'' 10 2 None,
                       StoppedResponse ''Breakpoint'' ''/liba.js'' 10 2 None]\<rparr>,
        \<lparr>loc = Some \<lparr>source = Some ''liba.js'', start = \<lparr>line = 10, column = 2\<rparr>\<rparr>\<rparr>,
        [])
   \<and> checkForActions exampleCollaborators
        (revisitServer
          \<lparr>lastExecuted :=
             Some \<lparr>filePath = ''lib/a.js'', line_sd = 10, column_sd = 2, stackSize = 2\<rparr>,
           channel := [StoppedResponse ''Breakpoint'' ''/lib/a.js'' 10 2 None]\<rparr>)
        \<lparr>loc = Some \<lparr>source = Some ''liba.js'', start = \<lparr>line = 10, column = 2\<rparr>\<rparr>\<rparr>
        [runRequest]
     \<noteq> (Returned,
        revisitServer
          \<lparr>lastExecuted :=
             Some \<lparr>filePath = ''lib/a.js'', line_sd = 10, column_sd = 2, stackSize = 2\<rparr>,
           channel := [StoppedResponse ''Breakpoint'' ''/lib/a.js'' 10 2 None]\<rparr>,
        \<lparr>loc = Some \<lparr>source = Some ''liba.js'', start = \<lparr>line = 10, column = 2\<rparr>\<rparr>\<rparr>,
        [runRequest])
   \<and> checkForActions exampleCollaborators
        (revisitServer
          \<lparr>breakpointManager := [\<lparr>filePath_bp = ''lib/a.js'', line_bp = 10, column_bp = 2\<rparr>]\<rparr>)
        revisitNode [runRequest, runRequest]
     = (Returned,
        revisitServer
          \<lparr>breakpointManager := [\<lparr>filePath_bp = ''lib/a.js'', line_bp = 10, column_bp = 2\<rparr>],
           lastExecuted :=
             Some \<lparr>filePath = ''lib/a.js'', line_sd = 10, column_sd = 2, stackSize = 2\<rparr>,
           channel := [StoppedResponse ''Breakpoint'' ''/lib/a.js'' 10 2 None]\<rparr>,
        \<lparr>loc = Some \<lparr>source = Some ''liba.js'', start = \<lparr>line = 10, column = 2\<rparr>\<rparr>\<rparr>,
        [runRequest])
   \<and> checkForActions exampleCollaborators
        (revisitServer
          \<lparr>breakpointManager := [\<lparr>filePath_bp = ''lib/a.js'', line_bp = 10, column_bp = 2\<rparr>],
           lastExecuted :=
             Some \<lparr>filePath = ''lib/a.js'', line_sd = 10, column_sd = 2, stackSize = 2\<rparr>,
           channel := [StoppedResponse ''Breakpoint'' ''/lib/a.js'' 10 2 None]\<rparr>)
        \<lparr>loc = Some \<lparr>source = Some ''liba.js'', start = \<lparr>line = 10, column = 2\<rparr>\<rparr>\<rparr>
        [runRequest]
     = (Returned,
        revisitServer
          \<lparr>breakpointManager := [\<lparr>filePath_bp = ''lib/a.js'', line_bp = 10, column_bp = 2\<rparr>],
           lastExecuted :=
             Some \<lparr>filePath = ''liba.js'', line_sd = 10, column_sd = 2, stackSize = 2\<rparr>,
           channel := [StoppedResponse ''Breakpoint'' ''/lib/a.js'' 10 2 None]\<rparr>,
        \<lparr>loc = Some \<lparr>source = Some ''liba.js'', start = \<lparr>line = 10, column = 2\<rparr>\<rparr>\<rparr>,
        [runRequest])"
  by (simp add: revisitServer_def revisitNode_def example_defs run_defs)

text \<open>
  C10. A checkpoint on a node without a location, or whose location has no source (or an
  empty one), does nothing at all: it returns at once, whatever the collaborators are,
  with the server unchanged, its marker and channel included, the node unchanged, and no
  request read.
\<close>

theorem checkForActions_unlocated:
  assumes "loc ast = None \<or> (\<exists>l. loc ast = Some l \<and> (source l = None \<or> source l = Some []))"
  shows "checkForActions C s ast requests = (Returned, s, ast, requests)"
proof -
  from assms have "locatedSource (loc ast) = None"
    by (simp add: locatedSource_None)
  then show ?thesis
    by (simp add: checkForActions_def checkAndUpdateLastExecuted_def)
qed

theorem checkForActions_unlocated_witness:
  "loc \<lparr>loc = None\<rparr> = None
   \<and> source \<lparr>source = None, start = \<lparr>line = 10, column = 2\<rparr>\<rparr> = None
   \<and> checkForActions exampleCollaborators exampleServer \<lparr>loc = None\<rparr> [runRequest]
       = (Returned, exampleServer, \<lparr>loc = None\<rparr>, [runRequest])
   \<and> checkForActions exampleCollaborators exampleServer
        \<lparr>loc = Some \<lparr>source = None, start = \<lparr>line = 10, column = 2\<rparr>\<rparr>\<rparr> [runRequest]
       = (Returned, exampleServer,
          \<lparr>loc = Some \<lparr>source = None, start = \<lparr>line = 10, column = 2\<rparr>\<rparr>\<rparr>, [runRequest])"
  using checkForActions_unlocated [of "\<lparr>loc = None\<rparr>" exampleCollaborators exampleServer
      "[runRequest]"]
    checkForActions_unlocated
      [of "\<lparr>loc = Some \<lparr>source = None, start = \<lparr>line = 10, column = 2\<rparr>\<rparr>\<rparr>"
        exampleCollaborators exampleServer "[runRequest]"]
  by simp

subsection \<open>Stop severity policy\<close>

text \<open>
  C3. Under the order Information < Warning < RecoverableError < FatalError, for every
  threshold \<open>T\<close> and every severity \<open>S\<close>, \<open>shouldStopForSeverity\<close> is true if and only
  if \<open>S\<close> is at or above \<open>T\<close>; stopping is monotone: if \<open>S\<close> stops under \<open>T\<close> and
  \<open>T'\<close> is at or below \<open>T\<close>, then \<open>S\<close> stops under \<open>T'\<close>.
\<close>

theorem shouldStopForSeverity_threshold:
  "shouldStopForSeverity T S = (severityRank T \<le> severityRank S) \<and>
   (shouldStopForSeverity T S \<and> severityRank T' \<le> severityRank T
      \<longrightarrow> shouldStopForSeverity T' S)"
proof -
  have iff: "shouldStopForSeverity X Y = (severityRank X \<le> severityRank Y)" for X Y
    by (cases X; cases Y) simp_all
  show ?thesis
    unfolding iff by auto
qed

theorem shouldStopForSeverity_threshold_witness:
  "shouldStopForSeverity RecoverableError FatalError
   \<and> severityRank Warning \<le> severityRank RecoverableError
   \<and> shouldStopForSeverity Warning FatalError
   \<and> \<not> shouldStopForSeverity FatalError Warning"
  using shouldStopForSeverity_threshold [of RecoverableError FatalError Warning]
    shouldStopForSeverity_threshold [of FatalError Warning Warning]
  by simp

subsection \<open>Path round trip\<close>

text \<open>
  C4. For every path \<open>P\<close> and every sourcemap prefix: making \<open>P\<close> absolute and then
  relative gives \<open>P\<close> back, always; making \<open>P\<close> relative and then absolute gives \<open>P\<close>
  back whenever \<open>P\<close> starts with the prefix. Making relative removes the first
  occurrence of the prefix (and nothing when the prefix does not occur); making absolute
  prepends the prefix unconditionally.
\<close>

theorem path_round_trip:
  "absoluteToRelative p (relativeToAbsolute p P) = P
   \<and> (prefix p P \<longrightarrow> relativeToAbsolute p (absoluteToRelative p P) = P)
   \<and> relativeToAbsolute p P = p @ P
   \<and> ((\<forall>i < length u. \<not> occursAt p (u @ p @ v) i)
        \<longrightarrow> absoluteToRelative p (u @ p @ v) = u @ v)
   \<and> ((\<forall>i \<le> length P. \<not> occursAt p P i) \<longrightarrow> absoluteToRelative p P = P)"
proof (intro conjI impI)
  show "absoluteToRelative p (relativeToAbsolute p P) = P"
    by (simp add: absoluteToRelative_def relativeToAbsolute_def replaceFirst_append)
  show "relativeToAbsolute p (absoluteToRelative p P) = P" if "prefix p P"
  proof -
    from that obtain r where "P = p @ r" by (auto elim: prefixE)
    then show ?thesis
      by (simp add: absoluteToRelative_def relativeToAbsolute_def replaceFirst_append)
  qed
  show "relativeToAbsolute p P = p @ P"
    by (simp add: relativeToAbsolute_def)
  show "absoluteToRelative p (u @ p @ v) = u @ v"
    if "\<forall>i < length u. \<not> occursAt p (u @ p @ v) i"
  proof -
    from that have "\<forall>i < length u. \<not> prefix p (drop i (u @ p @ v))"
      by (auto simp: occursAt_def)
    then show ?thesis
      using replaceFirst_first_occurrence [of u p v "[]"]
      by (simp add: absoluteToRelative_def)
  qed
  show "absoluteToRelative p P = P" if "\<forall>i \<le> length P. \<not> occursAt p P i"
  proof -
    from that have "\<forall>i \<le> length P. \<not> prefix p (drop i P)"
      by (auto simp: occursAt_def)
    then show ?thesis
      by (simp add: absoluteToRelative_def replaceFirst_no_occurrence)
  qed
qed

theorem path_round_trip_witness:
  "prefix ''src/'' ''src/a.js''
   \<and> relativeToAbsolute ''src/'' (absoluteToRelative ''src/'' ''src/a.js'') = ''src/a.js''
   \<and> absoluteToRelative ''src/'' (''lib/'' @ ''src/'' @ ''a.js'') = ''lib/'' @ ''a.js''
   \<and> absoluteToRelative ''src/'' ''a.js'' = ''a.js''"
proof -
  have starts: "prefix ''src/'' ''src/a.js''" by simp
  have first: "\<forall>i < length ''lib/''. \<not> occursAt ''src/'' (''lib/'' @ ''src/'' @ ''a.js'') i"
    by (simp add: occursAt_def All_less_Suc numeral_eq_Suc)
  have nowhere: "\<forall>i \<le> length ''a.js''. \<not> occursAt ''src/'' ''a.js'' i"
    by (simp add: occursAt_def All_less_Suc numeral_eq_Suc le_Suc_eq all_conj_distrib)
  from path_round_trip [of "''src/''" "''src/a.js''" "''lib/''" "''a.js''"]
    path_round_trip [of "''src/''" "''a.js''" "[]" "[]"] starts first nowhere
  show ?thesis by blast
qed

subsection \<open>Stack frames and scopes\<close>

text \<open>
  C5 (as amended). For a call stack of depth \<open>N\<close>, a stack-frames request is answered
  with exactly \<open>N\<close> frames, innermost first, with the ids 0 to \<open>N - 1\<close>, where frame
  \<open>k\<close> is named after the call at slot \<open>N - 1 - k\<close> of the stack, so that id 0 is
  the frame now executing. Every file name shown has the sourcemap prefix prepended.
  Frame 0 shows the current location (as the dispatcher has made it relative) when it
  is known and has a non-empty source, and otherwise the sentinel (unknown, 0, 0), whose file name therefore appears as the
  prefix followed by \<open>unknown\<close>. Every other frame \<open>k\<close> shows in the same way the
  invocation site recorded on the engine frame one position closer to the top, slot
  \<open>N - k\<close>, or the sentinel when that frame records no location with a source.
\<close>

theorem stackframes_response:
  "processDebuggerCommand C s
       \<lparr>id_req = requestID, command = STACKFRAMES_COMMAND, arguments = StackframeArguments\<rparr>
       current
     = (Inr False,
        processStackframesCommand s requestID (relativeLocation (sourcemapPrefix s) current),
        relativeLocation (sourcemapPrefix s) current)
   \<and> (\<exists>frames. processStackframesCommand s requestID astLoc
               = send (StackframeResponse requestID frames) s
      \<and> length frames = length (contextStack (realm s))
      \<and> (\<forall>k < length (contextStack (realm s)).
           frames ! k =
             (let cs = contextStack (realm s);
                  shown = (if k = 0 then getFrameLocation astLoc
                           else getFrameLocation (loc_ctx (cs ! (length cs - k))))
              in \<lparr>id_frame = int k,
                  functionName = frameFunctionName (cs ! (length cs - 1 - k)),
                  fileName = sourcemapPrefix s @ fst shown,
                  line_frame = fst (snd shown),
                  column_frame = snd (snd shown)\<rparr>)))
   \<and> (x = Some l \<and> source l = Some src \<and> src \<noteq> []
        \<longrightarrow> getFrameLocation x = (src, line (start l), column (start l)))
   \<and> (x = None \<or> (\<exists>l. x = Some l \<and> (source l = None \<or> source l = Some []))
        \<longrightarrow> getFrameLocation x = (''unknown'', 0, 0))"
proof (intro conjI impI)
  show "processDebuggerCommand C s
       \<lparr>id_req = requestID, command = STACKFRAMES_COMMAND, arguments = StackframeArguments\<rparr>
       current
     = (Inr False,
        processStackframesCommand s requestID (relativeLocation (sourcemapPrefix s) current),
        relativeLocation (sourcemapPrefix s) current)"
    by (simp add: processDebuggerCommand_def Let_def relativeArguments_def)
next
  let ?cs = "contextStack (realm s)"
  let ?frames = "stackframesLoop (sourcemapPrefix s) ?cs (length ?cs) (getFrameLocation astLoc)"
  have "processStackframesCommand s requestID astLoc
          = send (StackframeResponse requestID ?frames) s"
    by (simp add: processStackframesCommand_def Let_def)
  moreover have "length ?frames = length ?cs"
    by (rule stackframesLoop_length)
  moreover have "\<forall>k < length ?cs. ?frames ! k =
             (let cs = contextStack (realm s);
                  shown = (if k = 0 then getFrameLocation astLoc
                           else getFrameLocation (loc_ctx (cs ! (length cs - k))))
              in \<lparr>id_frame = int k,
                  functionName = frameFunctionName (cs ! (length cs - 1 - k)),
                  fileName = sourcemapPrefix s @ fst shown,
                  line_frame = fst (snd shown),
                  column_frame = snd (snd shown)\<rparr>)"
    by (simp add: stackframesLoop_nth Let_def)
  ultimately show "\<exists>frames. processStackframesCommand s requestID astLoc
               = send (StackframeResponse requestID frames) s
      \<and> length frames = length (contextStack (realm s))
      \<and> (\<forall>k < length (contextStack (realm s)).
           frames ! k =
             (let cs = contextStack (realm s);
                  shown = (if k = 0 then getFrameLocation astLoc
                           else getFrameLocation (loc_ctx (cs ! (length cs - k))))
              in \<lparr>id_frame = int k,
                  functionName = frameFunctionName (cs ! (length cs - 1 - k)),
                  fileName = sourcemapPrefix s @ fst shown,
                  line_frame = fst (snd shown),
                  column_frame = snd (snd shown)\<rparr>))"
    by blast
next
  assume "x = Some l \<and> source l = Some src \<and> src \<noteq> []"
  then have "locatedSource x = Some (l, src)" by (simp add: locatedSource_Some)
  then show "getFrameLocation x = (src, line (start l), column (start l))"
    by (simp add: getFrameLocation_def)
next
  assume "x = None \<or> (\<exists>l. x = Some l \<and> (source l = None \<or> source l = Some []))"
  then have "locatedSource x = None" by (simp add: locatedSource_None)
  then show "getFrameLocation x = (''unknown'', 0, 0)"
    by (simp add: getFrameLocation_def)
qed

theorem stackframes_response_witness:
  "processStackframesCommand exampleServer 7
       (Some \<lparr>source = Some ''a'', start = \<lparr>line = 10, column = 2\<rparr>\<rparr>)
     = send (StackframeResponse 7
         [\<lparr>id_frame = 0, functionName = ''f'', fileName = ''/p/a'',
             line_frame = 10, column_frame = 2\<rparr>,
          \<lparr>id_frame = 1, functionName = ''(anonymous function)'', fileName = ''/p/a'',
             line_frame = 3, column_frame = 4\<rparr>]) exampleServer
   \<and> getFrameLocation (Some \<lparr>source = Some ''a'', start = \<lparr>line = 10, column = 2\<rparr>\<rparr>)
       = (''a'', 10, 2)
   \<and> getFrameLocation None = (''unknown'', 0, 0)"
proof -
  let ?l = "\<lparr>source = Some ''a'', start = \<lparr>line = 10, column = 2\<rparr>\<rparr>"
  note inst = stackframes_response [where s = exampleServer and requestID = 7
      and astLoc = "Some ?l" and l = ?l and src = "''a''" and C = exampleCollaborators
      and current = "Some ?l"]
  from inst [where x = "Some ?l"] have a: "getFrameLocation (Some ?l) = (''a'', 10, 2)"
    by simp
  from inst [where x = None] have b: "getFrameLocation None = (''unknown'', 0, 0)"
    by simp
  from inst [where x = None] obtain frames where
    f: "processStackframesCommand exampleServer 7 (Some ?l)
          = send (StackframeResponse 7 frames) exampleServer"
       "length frames = 2"
       "frames ! 0 = \<lparr>id_frame = 0, functionName = ''f'', fileName = ''/p/a'',
             line_frame = 10, column_frame = 2\<rparr>"
       "frames ! 1 = \<lparr>id_frame = 1, functionName = ''(anonymous function)'', fileName = ''/p/a'',
             line_frame = 3, column_frame = 4\<rparr>"
    by (auto simp: example_defs Let_def frameFunctionName_def getFrameLocation_def
        locatedSource_def)
  from f(2) obtain x y where "frames = [x, y]"
    by (cases frames; cases "tl frames") auto
  with f a b show ?thesis by simp
qed

text \<open>
  With a non-empty prefix and no current location, the file name of frame 0 is not
  \<open>unknown\<close>.
\<close>

theorem stackframes_sentinel_counterexample:
  "processStackframesCommand exampleServer 7 None
     = send (StackframeResponse 7
         [\<lparr>id_frame = 0, functionName = ''f'', fileName = ''/p/unknown'',
             line_frame = 0, column_frame = 0\<rparr>,
          \<lparr>id_frame = 1, functionName = ''(anonymous function)'', fileName = ''/p/a'',
             line_frame = 3, column_frame = 4\<rparr>]) exampleServer
   \<and> processStackframesCommand exampleServer 7 None
     \<noteq> send (StackframeResponse 7
         [\<lparr>id_frame = 0, functionName = ''f'', fileName = ''unknown'',
             line_frame = 0, column_frame = 0\<rparr>,
          \<lparr>id_frame = 1, functionName = ''(anonymous function)'', fileName = ''/p/a'',
             line_frame = 3, column_frame = 4\<rparr>]) exampleServer"
  by (simp add: example_defs run_defs numeral_2_eq_2)

text \<open>
  C6. A scopes request with frame id \<open>f\<close> over a call stack of depth \<open>N\<close>: if
  \<open>f < 0\<close> or \<open>f \<ge> N\<close>, the request fails with the invalid-frame-id error, and the
  server is unchanged, so that no response is sent. Otherwise the slot inspected is
  \<open>N - 1 - f\<close>, and for a chain of environment records of the four kinds the response
  has one scope for each environment of that frame's chain, from the innermost outwards
  along the parent links: each is named after its record, carries the handle the
  variable manager gives for its environment, registered in this order, and is not
  expensive.
\<close>

theorem scopes_request:
  "(frameId < 0 \<or> frameId \<ge> int (length (contextStack (realm s)))
      \<longrightarrow> processScopesCommand C s requestID frameId
            = (Some (DebuggerError ''Invalid command''
                       (''Invalid frame id for scopes request: '' @ numberToString frameId)), s)
        \<and> processDebuggerCommand C s
            \<lparr>id_req = requestID, command = SCOPES_COMMAND, arguments = ScopesArguments frameId\<rparr> l
            = (Inl (DebuggerError ''Invalid command''
                      (''Invalid frame id for scopes request: '' @ numberToString frameId)),
               s, relativeLocation (sourcemapPrefix s) l))
   \<and> (0 \<le> frameId \<and> frameId < int (length (contextStack (realm s)))
        \<and> chain = environmentChain (lexicalEnvironment
             (contextStack (realm s) ! (length (contextStack (realm s)) - 1 - nat frameId)))
        \<and> (\<forall>e \<in> set chain. environmentRecord e \<noteq> OtherEnvironmentRecord)
      \<longrightarrow> (\<exists>scopes.
             processScopesCommand C s requestID frameId
               = (None, send (ScopesResponse requestID scopes)
                          (s\<lparr>variableManager :=
                               snd (registerAll C (realm s) (variableManager s) chain)\<rparr>))
             \<and> length scopes = length chain
             \<and> map (\<lambda>sc. Inr (name sc)) scopes
                 = map (\<lambda>e. getScopeName (environmentRecord e)) chain
             \<and> map variablesReference scopes
                 = fst (registerAll C (realm s) (variableManager s) chain)
             \<and> (\<forall>sc \<in> set scopes. \<not> expensive sc)))"
proof (intro conjI impI)
  assume out: "frameId < 0 \<or> frameId \<ge> int (length (contextStack (realm s)))"
  then show "processScopesCommand C s requestID frameId
            = (Some (DebuggerError ''Invalid command''
                       (''Invalid frame id for scopes request: '' @ numberToString frameId)), s)"
    by (auto simp: processScopesCommand_def Let_def)
  then show "processDebuggerCommand C s
            \<lparr>id_req = requestID, command = SCOPES_COMMAND, arguments = ScopesArguments frameId\<rparr> l
            = (Inl (DebuggerError ''Invalid command''
                      (''Invalid frame id for scopes request: '' @ numberToString frameId)),
               s, relativeLocation (sourcemapPrefix s) l)"
    by (simp add: processDebuggerCommand_def Let_def relativeArguments_def)
next
  let ?cs = "contextStack (realm s)"
  assume h: "0 \<le> frameId \<and> frameId < int (length ?cs)
        \<and> chain = environmentChain (lexicalEnvironment (?cs ! (length ?cs - 1 - nat frameId)))
        \<and> (\<forall>e \<in> set chain. environmentRecord e \<noteq> OtherEnvironmentRecord)"
  then have idx: "nat (int (length ?cs) - 1 - frameId) = length ?cs - 1 - nat frameId"
    by linarith
  let ?env = "lexicalEnvironment (?cs ! (length ?cs - 1 - nat frameId))"
  from h have "\<forall>e \<in> set (environmentChain ?env). environmentRecord e \<noteq> OtherEnvironmentRecord"
    by simp
  from scopesLoop_known [OF this, of C "realm s" "variableManager s"] obtain scopes where
    sc: "scopesLoop C (realm s) (variableManager s) ?env
               = (Inr scopes, snd (registerAll C (realm s) (variableManager s) (environmentChain ?env)))"
        "map (\<lambda>sc. Inr (name sc)) scopes
           = map (\<lambda>e. getScopeName (environmentRecord e)) (environmentChain ?env)"
        "map variablesReference scopes
           = fst (registerAll C (realm s) (variableManager s) (environmentChain ?env))"
        "\<forall>sc \<in> set scopes. \<not> expensive sc"
    by blast
  from sc(2) have len: "length scopes = length (environmentChain ?env)"
    by (metis length_map)
  have "processScopesCommand C s requestID frameId
               = (None, send (ScopesResponse requestID scopes)
                          (s\<lparr>variableManager :=
                               snd (registerAll C (realm s) (variableManager s) chain)\<rparr>))"
    using h sc(1) by (simp add: processScopesCommand_def Let_def idx)
  with sc len h show "\<exists>scopes.
             processScopesCommand C s requestID frameId
               = (None, send (ScopesResponse requestID scopes)
                          (s\<lparr>variableManager :=
                               snd (registerAll C (realm s) (variableManager s) chain)\<rparr>))
             \<and> length scopes = length chain
             \<and> map (\<lambda>sc. Inr (name sc)) scopes
                 = map (\<lambda>e. getScopeName (environmentRecord e)) chain
             \<and> map variablesReference scopes
                 = fst (registerAll C (realm s) (variableManager s) chain)
             \<and> (\<forall>sc \<in> set scopes. \<not> expensive sc)"
    by blast
qed

theorem scopes_request_witness:
  "processScopesCommand exampleCollaborators exampleServer 5 0
     = (None, send (ScopesResponse 5
          [\<lparr>name = ''Block'', variablesReference = 0, expensive = False\<rparr>,
           \<lparr>name = ''Local: f'', variablesReference = 1, expensive = False\<rparr>,
           \<lparr>name = ''Global'', variablesReference = 2, expensive = False\<rparr>])
          (exampleServer\<lparr>variableManager := 3\<rparr>))
   \<and> processScopesCommand exampleCollaborators exampleServer 5 2
     = (Some (DebuggerError ''Invalid command'' ''Invalid frame id for scopes request: 2''),
        exampleServer)
   \<and> processScopesCommand exampleCollaborators exampleServer 5 (- 1)
     = (Some (DebuggerError ''Invalid command'' ''Invalid frame id for scopes request: -1''),
        exampleServer)"
proof -
  let ?chain = "environmentChain (lexicalEnvironment (exampleStack ! 1))"
  have chain: "?chain = environmentChain (lexicalEnvironment
       (contextStack (realm exampleServer)
          ! (length (contextStack (realm exampleServer)) - 1 - nat 0)))"
    by (simp add: example_defs)
  have known: "\<forall>e \<in> set ?chain. environmentRecord e \<noteq> OtherEnvironmentRecord"
    by (simp add: example_defs)
  have range: "(0::int) \<le> 0 \<and> 0 < int (length (contextStack (realm exampleServer)))"
    by (simp add: example_defs)
  from scopes_request [where s = exampleServer and C = exampleCollaborators and requestID = 5
      and frameId = 0 and chain = ?chain] chain known range
  obtain scopes where "processScopesCommand exampleCollaborators exampleServer 5 0
     = (None, send (ScopesResponse 5 scopes)
          (exampleServer\<lparr>variableManager :=
             snd (registerAll exampleCollaborators (realm exampleServer)
                    (variableManager exampleServer) ?chain)\<rparr>))"
    by blast
  moreover have "processScopesCommand exampleCollaborators exampleServer 5 0
     = (None, send (ScopesResponse 5
          [\<lparr>name = ''Block'', variablesReference = 0, expensive = False\<rparr>,
           \<lparr>name = ''Local: f'', variablesReference = 1, expensive = False\<rparr>,
           \<lparr>name = ''Global'', variablesReference = 2, expensive = False\<rparr>])
          (exampleServer\<lparr>variableManager := 3\<rparr>))"
    by (simp add: example_defs run_defs numeral_3_eq_3)
  moreover have "(2::int) < 0 \<or> 2 \<ge> int (length (contextStack (realm exampleServer)))"
    by (simp add: example_defs)
  from this scopes_request [where s = exampleServer and C = exampleCollaborators
      and requestID = 5 and frameId = 2]
  have "processScopesCommand exampleCollaborators exampleServer 5 2
     = (Some (DebuggerError ''Invalid command'' ''Invalid frame id for scopes request: 2''),
        exampleServer)"
    by (simp add: numberToString_def natToString.simps)
  moreover have "(- 1::int) < 0 \<or> - 1 \<ge> int (length (contextStack (realm exampleServer)))"
    by simp
  from this scopes_request [where s = exampleServer and C = exampleCollaborators
      and requestID = 5 and frameId = "- 1"]
  have "processScopesCommand exampleCollaborators exampleServer 5 (- 1)
     = (Some (DebuggerError ''Invalid command'' ''Invalid frame id for scopes request: -1''),
        exampleServer)"
    by (simp add: numberToString_def natToString.simps)
  ultimately show ?thesis by simp
qed

text \<open>
  C7. Scope naming is total on the four kinds of environment record: a global record is
  named \<open>Global\<close>, a function record \<open>Local: \<close> followed by the original name of the
  function, or by \<open>anonymous function\<close> when no name (or an empty one) is recorded, any
  other declarative record \<open>Block\<close>, an object record \<open>With\<close>; a record of any other
  kind is an invariant violation, and only such a record is.
\<close>

theorem getScopeName_total:
  "getScopeName GlobalEnvironmentRecord = Inr ''Global''
   \<and> getScopeName (FunctionEnvironmentRecord \<lparr>originalName = Some (c # cs)\<rparr>)
       = Inr (''Local: '' @ c # cs)
   \<and> getScopeName (FunctionEnvironmentRecord \<lparr>originalName = None\<rparr>)
       = Inr ''Local: anonymous function''
   \<and> getScopeName (FunctionEnvironmentRecord \<lparr>originalName = Some []\<rparr>)
       = Inr ''Local: anonymous function''
   \<and> getScopeName DeclarativeEnvironmentRecord = Inr ''Block''
   \<and> getScopeName ObjectEnvironmentRecord = Inr ''With''
   \<and> getScopeName OtherEnvironmentRecord
       = Inl (InvariantViolation (Some ''Invalid type of environment record''))
   \<and> ((\<exists>n. getScopeName envRec = Inr n) = (envRec \<noteq> OtherEnvironmentRecord))"
  by (cases envRec) simp_all

subsection \<open>The dispatcher\<close>

text \<open>
  C8 (as amended). A request whose command is none of the recognised ones makes the
  dispatcher fail with a protocol error whose message names the command; nothing is sent
  and the server is unchanged. The error leaves the blocking loop as well: \<open>waitForRun\<close>
  ends with this error and reads none of the requests that follow.
\<close>

theorem invalid_command_propagates:
  "processDebuggerCommand C s \<lparr>id_req = requestID, command = OtherCommand c, arguments = args\<rparr> l
     = (Inl (DebuggerError ''Invalid command'' (''Invalid command from adapter: '' @ c)),
        s, relativeLocation (sourcemapPrefix s) l)
   \<and> waitForRun C s l
       (\<lparr>id_req = requestID, command = OtherCommand c, arguments = args\<rparr> # requests)
     = (Thrown (DebuggerError ''Invalid command'' (''Invalid command from adapter: '' @ c)),
        s, relativeLocation (sourcemapPrefix s) l, requests)"
  by (simp add: processDebuggerCommand_def Let_def)

text \<open>
  The loop does not go on after the failed request: the run request behind it is left
  unread, and the call ends otherwise than it does on the run request alone.
\<close>

theorem invalid_command_counterexample:
  "waitForRun exampleCollaborators exampleServer None [bogusRequest, runRequest]
     = (Thrown (DebuggerError ''Invalid command'' ''Invalid command from adapter: bogus''),
        exampleServer, None, [runRequest])
   \<and> waitForRun exampleCollaborators exampleServer None [bogusRequest, runRequest]
     \<noteq> waitForRun exampleCollaborators exampleServer None [runRequest]"
  by (simp add: example_defs run_defs)

text \<open>
  C9 (as amended). Processing a request at a current location never changes the line and
  the column of the location, and replaces its source by the relative form of that
  source, the first occurrence of the sourcemap prefix removed, whatever the request is
  and whether or not it fails. The location is unchanged when the prefix does not occur
  in the source, and when the prefix is empty.
\<close>

theorem location_made_relative:
  "snd (snd (processDebuggerCommand C s request (Some l)))
     = Some (l\<lparr>source := map_option (absoluteToRelative (sourcemapPrefix s)) (source l)\<rparr>)
   \<and> ((\<forall>src. source l = Some src \<longrightarrow> (\<forall>i \<le> length src. \<not> occursAt (sourcemapPrefix s) src i))
        \<longrightarrow> snd (snd (processDebuggerCommand C s request (Some l))) = Some l)
   \<and> (sourcemapPrefix s = []
        \<longrightarrow> snd (snd (processDebuggerCommand C s request (Some l))) = Some l)"
proof (intro conjI impI)
  let ?p = "sourcemapPrefix s"
  have eq: "snd (snd (processDebuggerCommand C s request (Some l)))
     = Some (l\<lparr>source := map_option (absoluteToRelative ?p) (source l)\<rparr>)"
    by (simp add: processDebuggerCommand_location relativeLocation_Some)
  then show "snd (snd (processDebuggerCommand C s request (Some l)))
     = Some (l\<lparr>source := map_option (absoluteToRelative ?p) (source l)\<rparr>)" .
  show "snd (snd (processDebuggerCommand C s request (Some l))) = Some l"
    if "\<forall>src. source l = Some src \<longrightarrow> (\<forall>i \<le> length src. \<not> occursAt ?p src i)"
  proof -
    have "map_option (absoluteToRelative ?p) (source l) = source l"
    proof (cases "source l")
      case None
      then show ?thesis by simp
    next
      case (Some src)
      with that have "\<forall>i \<le> length src. \<not> prefix ?p (drop i src)"
        by (auto simp: occursAt_def)
      then have "absoluteToRelative ?p src = src"
        by (simp add: absoluteToRelative_def replaceFirst_no_occurrence)
      with Some show ?thesis by simp
    qed
    with eq show ?thesis by simp
  qed
  show "snd (snd (processDebuggerCommand C s request (Some l))) = Some l" if "?p = []"
  proof -
    have "absoluteToRelative [] src = src" for src :: string
      by (cases src) (simp_all add: absoluteToRelative_def)
    then have "map_option (absoluteToRelative ?p) (source l) = source l"
      using that by (cases "source l") simp_all
    with eq show ?thesis by simp
  qed
qed

theorem location_made_relative_witness:
  "snd (snd (processDebuggerCommand exampleCollaborators exampleServer runRequest
       (Some \<lparr>source = Some ''a'', start = \<lparr>line = 10, column = 2\<rparr>\<rparr>)))
     = Some \<lparr>source = Some ''a'', start = \<lparr>line = 10, column = 2\<rparr>\<rparr>
   \<and> snd (snd (processDebuggerCommand exampleCollaborators
        (exampleServer\<lparr>sourcemapPrefix := []\<rparr>) runRequest
       (Some \<lparr>source = Some ''/p/a'', start = \<lparr>line = 10, column = 2\<rparr>\<rparr>)))
     = Some \<lparr>source = Some ''/p/a'', start = \<lparr>line = 10, column = 2\<rparr>\<rparr>"
proof -
  let ?l = "\<lparr>source = Some ''a'', start = \<lparr>line = 10, column = 2\<rparr>\<rparr>"
  have "\<forall>src. source ?l = Some src \<longrightarrow>
          (\<forall>i \<le> length src. \<not> occursAt (sourcemapPrefix exampleServer) src i)"
    by (simp add: example_defs occursAt_def le_Suc_eq)
  with location_made_relative [where s = exampleServer and l = ?l
      and C = exampleCollaborators and request = runRequest]
  have "snd (snd (processDebuggerCommand exampleCollaborators exampleServer runRequest (Some ?l)))
     = Some ?l"
    by blast
  moreover
  have "sourcemapPrefix (exampleServer\<lparr>sourcemapPrefix := []\<rparr>) = []" by simp
  with location_made_relative [where s = "exampleServer\<lparr>sourcemapPrefix := []\<rparr>"
      and l = "\<lparr>source = Some ''/p/a'', start = \<lparr>line = 10, column = 2\<rparr>\<rparr>"
      and C = exampleCollaborators and request = runRequest]
  have "snd (snd (processDebuggerCommand exampleCollaborators
        (exampleServer\<lparr>sourcemapPrefix := []\<rparr>) runRequest
       (Some \<lparr>source = Some ''/p/a'', start = \<lparr>line = 10, column = 2\<rparr>\<rparr>)))
     = Some \<lparr>source = Some ''/p/a'', start = \<lparr>line = 10, column = 2\<rparr>\<rparr>"
    by blast
  ultimately show ?thesis by simp
qed

text \<open>
  With the prefix \<open>/\<close>, a run request at a location in \<open>lib/a.js\<close> leaves the
  location with the source \<open>liba.js\<close>.
\<close>

theorem location_immutable_counterexample:
  "snd (snd (processDebuggerCommand exampleCollaborators
        (exampleServer\<lparr>sourcemapPrefix := ''/''\<rparr>) runRequest
       (Some \<lparr>source = Some ''lib/a.js'', start = \<lparr>line = 10, column = 2\<rparr>\<rparr>)))
     = Some \<lparr>source = Some ''liba.js'', start = \<lparr>line = 10, column = 2\<rparr>\<rparr>
   \<and> snd (snd (processDebuggerCommand exampleCollaborators
        (exampleServer\<lparr>sourcemapPrefix := ''/''\<rparr>) runRequest
       (Some \<lparr>source = Some ''lib/a.js'', start = \<lparr>line = 10, column = 2\<rparr>\<rparr>)))
     \<noteq> Some \<lparr>source = Some ''lib/a.js'', start = \<lparr>line = 10, column = 2\<rparr>\<rparr>"
  by (simp add: example_defs run_defs)

end
